theory Spec2Isabelle
  imports Complex_Main
begin

section \<open>Common data: exceptions, arrays, encoder output\<close>

text \<open>
  The Python sources raise exceptions; here every raise is a value \<open>Inl e\<close> of a sum type
  and every normal return is \<open>Inr v\<close>. Floating-point numbers are modelled as reals
  (rounding is outside the model). In the anomaly detection service the mean of an
  empty array, which is \<open>nan\<close>, can be reached; a float that can be \<open>nan\<close> there is a
  \<open>real option\<close>, with \<open>None\<close> for \<open>nan\<close>. A one-dimensional numpy array is a list of
  reals, a two-dimensional one is the list of its rows.
\<close>

datatype exn =
    NameError
  | ValueError
  | KeyError
  | AttributeError
  | ZeroDivisionError
  | IOError
  | DecodeError
  | ResourceError
  | ModelError
  | InsertFailed
  | MaxRetriesExceededError

type_synonym vec = "real list"
type_synonym matrix = "real list list"

text \<open>The literal \<open>1e-8\<close> that the sources add to denominators.\<close>

definition epsilon :: real where
  "epsilon = 1 / 10 ^ 8"

text \<open>A two-dimensional array with at least one row and one column, all rows equally long.\<close>

definition ncols :: "matrix \<Rightarrow> nat" where
  "ncols m = (case m of [] \<Rightarrow> 0 | r # _ \<Rightarrow> length r)"

definition ndarray2 :: "matrix \<Rightarrow> bool" where
  "ndarray2 m \<longleftrightarrow> m \<noteq> [] \<and> 0 < ncols m \<and> list_all (\<lambda>r. length r = ncols m) m"

subsection \<open>The numpy operations the services call\<close>

definition np_mean :: "vec \<Rightarrow> real" where
  "np_mean xs = sum_list xs / real (length xs)"

text \<open>The mean of an array that may be empty: numpy returns \<open>nan\<close> for an empty one.\<close>

definition np_mean_nan :: "vec \<Rightarrow> real option" where
  "np_mean_nan xs = (if xs = [] then None else Some (np_mean xs))"

text \<open>\<open>np.var\<close> is the population variance: the mean of the squared deviations.\<close>

definition np_var :: "vec \<Rightarrow> real" where
  "np_var xs = np_mean (map (\<lambda>x. (x - np_mean xs)\<^sup>2) xs)"

definition np_std :: "vec \<Rightarrow> real" where
  "np_std xs = sqrt (np_var xs)"

definition column :: "nat \<Rightarrow> matrix \<Rightarrow> vec" where
  "column j m = map (\<lambda>r. r ! j) m"

definition mean_axis0 :: "matrix \<Rightarrow> vec" where
  "mean_axis0 m = map (\<lambda>j. np_mean (column j m)) [0..<ncols m]"

definition var_axis0 :: "matrix \<Rightarrow> vec" where
  "var_axis0 m = map (\<lambda>j. np_var (column j m)) [0..<ncols m]"

definition std_axis0 :: "matrix \<Rightarrow> vec" where
  "std_axis0 m = map (\<lambda>j. np_std (column j m)) [0..<ncols m]"

text \<open>\<open>np.linalg.norm\<close> of a vector, and of every row (\<open>axis=1\<close>).\<close>

definition np_norm :: "vec \<Rightarrow> real" where
  "np_norm v = sqrt (sum_list (map (\<lambda>x. x\<^sup>2) v))"

definition norm_axis1 :: "matrix \<Rightarrow> vec" where
  "norm_axis1 m = map np_norm m"

text \<open>\<open>np.diff(a, axis=0)\<close>: row \<open>i\<close> of the result is \<open>a[i+1] - a[i]\<close>.\<close>

definition np_diff :: "matrix \<Rightarrow> matrix" where
  "np_diff m = map2 (map2 (\<lambda>a b. a - b)) (tl m) m"

text \<open>
  \<open>np.dot\<close> of two vectors raises \<open>ValueError\<close> when their lengths differ. An elementwise
  operation on two vectors broadcasts a vector of length one and raises otherwise when
  the lengths differ.
\<close>

definition np_dot :: "vec \<Rightarrow> vec \<Rightarrow> exn + real" where
  "np_dot a b =
     (if length a = length b then Inr (sum_list (map2 (\<lambda>x y. x * y) a b))
      else Inl ValueError)"

definition np_broadcast :: "(real \<Rightarrow> real \<Rightarrow> real) \<Rightarrow> vec \<Rightarrow> vec \<Rightarrow> exn + vec" where
  "np_broadcast f xs ys =
     (if length xs = length ys then Inr (map2 f xs ys)
      else if length xs = 1 then Inr (map (f (hd xs)) ys)
      else if length ys = 1 then Inr (map (\<lambda>x. f x (hd ys)) xs)
      else Inl ValueError)"

subsection \<open>Per-dimension statistics written by index\<close>

text \<open>
  The mean and the population variance of dimension \<open>j\<close> over the rows of a matrix, as
  the specification's formulas use them.
\<close>

definition spec_row_mean :: "matrix \<Rightarrow> nat \<Rightarrow> real" where
  "spec_row_mean m j = (\<Sum>t<length m. m ! t ! j) / real (length m)"

definition spec_dim_var :: "matrix \<Rightarrow> nat \<Rightarrow> real" where
  "spec_dim_var m j = (\<Sum>t<length m. (m ! t ! j - spec_row_mean m j)\<^sup>2) / real (length m)"

subsection \<open>Encoder output\<close>

text \<open>
  \<open>VideoFeatures\<close> of \<open>db/models.py\<close>. The encoder service
  (\<open>encoder_service.encode_video\<close>) is an external collaborator of the modules
  modelled here; every function that calls it takes it as a parameter of type
  \<open>encoder\<close>.
\<close>

record VideoFeatures =
  feat_video_id :: string
  global_features :: vec
  temporal_features :: matrix
  feat_metadata :: "string \<rightharpoonup> real"
  feat_created_at :: real

type_synonym encoder = "string \<Rightarrow> exn + VideoFeatures"

section \<open>Anomaly detection service (\<open>services/anomaly_detection.py\<close>)\<close>

text \<open>
  The baseline statistics that \<open>establish_baseline\<close> stores; they are taken to be
  finite numbers.
\<close>

record baseline =
  mean_temporal_variance :: vec
  std_temporal_variance :: vec
  mean_motion_magnitude :: real
  std_motion_magnitude :: real
  num_videos :: nat

text \<open>
  The service object: \<open>baseline_features\<close> is the empty dict (\<open>None\<close>) until
  \<open>establish_baseline\<close> stores the statistics. \<open>an_encoded\<close> is a ghost log of the
  paths handed to the encoder, newest first.
\<close>

record anomaly_service =
  baseline_features :: "baseline option"
  an_encoded :: "string list"

text \<open>
  The dict that \<open>detect_anomaly\<close> returns. The scores and the motion magnitude are
  \<open>nan\<close> (\<open>None\<close>) when a mean is taken of an empty array.
\<close>

record anomaly_result =
  ar_video_path :: string
  is_anomaly :: bool
  anomaly_score :: "real option"
  motion_z_score :: "real option"
  variance_z_score :: "real option"
  motion_magnitude :: "real option"
  ar_threshold :: real
  confidence :: real

record temporal_anomaly =
  frame_start :: nat
  frame_end :: nat
  timestamp_start :: real
  timestamp_end :: real
  ta_motion_z_score :: real
  ta_motion_magnitude :: real

text \<open>
  \<open>np.linalg.norm(np.diff(temporal, axis=0), axis=1).mean()\<close>: the mean length of the
  differences of consecutive rows; \<open>nan\<close> when there are fewer than two rows.
\<close>

definition motion_of :: "matrix \<Rightarrow> real option" where
  "motion_of temporal = np_mean_nan (norm_axis1 (np_diff temporal))"

text \<open>The default of the \<open>threshold\<close> argument of \<open>detect_anomaly\<close>.\<close>

definition default_threshold :: real where
  "default_threshold = 2"

text \<open>
  \<open>detect_anomaly\<close>. A comparison with \<open>nan\<close> is false, so a score that is \<open>nan\<close> is not
  flagged; \<open>min(100, x)\<close> is 100 when \<open>x\<close> is \<open>nan\<close> or infinite, as it is for the
  threshold 0.
\<close>

definition detect_anomaly ::
  "encoder \<Rightarrow> anomaly_service \<Rightarrow> string \<Rightarrow> real \<Rightarrow> (exn + anomaly_result) \<times> anomaly_service" where
  "detect_anomaly enc s video_path threshold =
     (case baseline_features s of
        None \<Rightarrow> (Inl ValueError, s)
      | Some b \<Rightarrow>
          (let s1 = s\<lparr>an_encoded := video_path # an_encoded s\<rparr> in
           case enc video_path of
             Inl e \<Rightarrow> (Inl e, s1)
           | Inr features \<Rightarrow>
               (let temporal = temporal_features features;
                    temporal_variance = var_axis0 temporal;
                    motion = motion_of temporal;
                    mz = map_option
                           (\<lambda>m. (m - mean_motion_magnitude b) / (std_motion_magnitude b + epsilon))
                           motion
                in case np_broadcast (\<lambda>x y. \<bar>x - y\<bar>) temporal_variance (mean_temporal_variance b) of
                     Inl e \<Rightarrow> (Inl e, s1)
                   | Inr variance_diff \<Rightarrow>
                       (case np_broadcast (\<lambda>x y. x / (y + epsilon)) variance_diff
                               (std_temporal_variance b) of
                          Inl e \<Rightarrow> (Inl e, s1)
                        | Inr ratios \<Rightarrow>
                            (let vz = np_mean_nan ratios;
                                 score = (case (mz, vz) of
                                            (Some z, Some v) \<Rightarrow> Some ((\<bar>z\<bar> + v) / 2)
                                          | _ \<Rightarrow> None)
                             in (Inr \<lparr>ar_video_path = video_path,
                                      is_anomaly = (case score of
                                                      Some x \<Rightarrow> x > threshold
                                                    | None \<Rightarrow> False),
                                      anomaly_score = score,
                                      motion_z_score = mz,
                                      variance_z_score = vz,
                                      motion_magnitude = motion,
                                      ar_threshold = threshold,
                                      confidence = (case score of
                                                      Some x \<Rightarrow>
                                                        if threshold = 0 then 100
                                                        else min 100 (x / threshold * 100)
                                                    | None \<Rightarrow> 100)\<rparr>,
                                 s1))))))"

text \<open>
  One iteration of the window loop of \<open>detect_temporal_anomalies\<close>: the window
  \<open>temporal[i : i + window_size]\<close>, its motion, its z-score, and the record appended
  when the z-score is beyond 2. A window of fewer than two rows has the motion \<open>nan\<close>,
  for which the comparison is false.
\<close>

definition window_anomaly :: "baseline \<Rightarrow> matrix \<Rightarrow> nat \<Rightarrow> nat \<Rightarrow> temporal_anomaly option" where
  "window_anomaly b temporal window_size i =
     (let window = take window_size (drop i temporal) in
      case motion_of window of
        None \<Rightarrow> None
      | Some window_motion \<Rightarrow>
          (let mz = (window_motion - mean_motion_magnitude b) / (std_motion_magnitude b + epsilon)
           in if \<bar>mz\<bar> > 2
              then Some \<lparr>frame_start = i,
                         frame_end = i + window_size,
                         timestamp_start = real i / real (length temporal),
                         timestamp_end = real (i + window_size) / real (length temporal),
                         ta_motion_z_score = mz,
                         ta_motion_magnitude = window_motion\<rparr>
              else None))"

definition detect_temporal_anomalies ::
  "encoder \<Rightarrow> anomaly_service \<Rightarrow> string \<Rightarrow> nat \<Rightarrow>
     (exn + temporal_anomaly list) \<times> anomaly_service" where
  "detect_temporal_anomalies enc s video_path window_size =
     (case baseline_features s of
        None \<Rightarrow> (Inl ValueError, s)
      | Some b \<Rightarrow>
          (let s1 = s\<lparr>an_encoded := video_path # an_encoded s\<rparr> in
           case enc video_path of
             Inl e \<Rightarrow> (Inl e, s1)
           | Inr features \<Rightarrow>
               (let temporal = temporal_features features;
                    num_windows = int (length temporal) - int window_size + 1
                in (Inr (List.map_filter (window_anomaly b temporal window_size)
                           [0..<nat num_windows]),
                    s1))))"

subsection \<open>The anomaly score in the words of the specification\<close>

text \<open>
  The motion magnitude \<open>m\<close> of a temporal matrix with rows \<open>x\<^sub>0, \<dots>, x\<^sub>T\<^sub>-\<^sub>1\<close>: the mean
  over \<open>t\<close> of the Euclidean length of \<open>x\<^sub>t\<^sub>+\<^sub>1 - x\<^sub>t\<close>.
\<close>

definition spec_motion_magnitude :: "matrix \<Rightarrow> real" where
  "spec_motion_magnitude m =
     (\<Sum>t<length m - 1. sqrt (\<Sum>j<ncols m. (m ! (t + 1) ! j - m ! t ! j)\<^sup>2))
       / real (length m - 1)"

definition spec_z_motion :: "real \<Rightarrow> real \<Rightarrow> real \<Rightarrow> real" where
  "spec_z_motion m mu sigma = (m - mu) / (sigma + 1 / 10 ^ 8)"

text \<open>
  The mean over the dimensions of \<open>|v - \<mu>\<^sub>v| / (\<sigma>\<^sub>v + \<epsilon>)\<close>, where \<open>v\<close> is the
  per-dimension variance of the temporal matrix.
\<close>

definition spec_z_variance :: "matrix \<Rightarrow> vec \<Rightarrow> vec \<Rightarrow> real" where
  "spec_z_variance m mu sigma =
     (\<Sum>j<ncols m. \<bar>spec_dim_var m j - mu ! j\<bar> / (sigma ! j + 1 / 10 ^ 8)) / real (ncols m)"

definition spec_anomaly_score :: "matrix \<Rightarrow> baseline \<Rightarrow> real" where
  "spec_anomaly_score m b =
     (\<bar>spec_z_motion (spec_motion_magnitude m) (mean_motion_magnitude b) (std_motion_magnitude b)\<bar>
      + spec_z_variance m (mean_temporal_variance b) (std_temporal_variance b)) / 2"

text \<open>The service object as \<open>__init__\<close> leaves it.\<close>

definition anomaly_service_init :: anomaly_service where
  "anomaly_service_init = \<lparr>baseline_features = None, an_encoded = []\<rparr>"

text \<open>A concrete encoder output, encoder and baseline, used to instantiate the theorems.\<close>

definition clip_features :: VideoFeatures where
  "clip_features =
     \<lparr>feat_video_id = ''clip'', global_features = [1],
      temporal_features = [[0], [2], [4]], feat_metadata = Map.empty,
      feat_created_at = 0\<rparr>"

definition walking_encoder :: encoder where
  "walking_encoder path = (if path = ''clip.mp4'' then Inr clip_features else Inl DecodeError)"

definition walking_baseline :: baseline where
  "walking_baseline =
     \<lparr>mean_temporal_variance = [1], std_temporal_variance = [1],
      mean_motion_magnitude = 2, std_motion_magnitude = 1, num_videos = 10\<rparr>"

section \<open>Indexing jobs (\<open>db/postgres.py\<close>)\<close>

text \<open>
  A row of the table \<open>indexing_jobs\<close>. Timestamps are real numbers of seconds; the
  free-form \<open>job_metadata\<close> column is not read by any function below and is left out.
\<close>

record IndexingJob =
  job_id :: string
  total_videos :: int
  completed :: int
  failed :: int
  job_status :: string
  created_at :: "real option"
  started_at :: "real option"
  completed_at :: "real option"
  job_error_message :: "string option"

text \<open>The dictionary that \<open>get_indexing_job\<close> returns.\<close>

record job_view =
  jv_job_id :: string
  jv_status :: string
  jv_total_videos :: int
  jv_completed :: int
  jv_failed :: int
  progress_percentage :: real
  eta_seconds :: "real option"
  jv_created_at :: "real option"
  jv_started_at :: "real option"
  jv_completed_at :: "real option"
  jv_error_message :: "string option"

definition create_indexing_job ::
  "real \<Rightarrow> (string \<rightharpoonup> IndexingJob) \<Rightarrow> string \<Rightarrow> int \<Rightarrow> (string \<rightharpoonup> IndexingJob)" where
  "create_indexing_job now jobs jid n_videos =
     jobs(jid \<mapsto> \<lparr>job_id = jid, total_videos = n_videos, completed = 0, failed = 0,
                   job_status = ''queued'', created_at = Some now, started_at = None,
                   completed_at = None, job_error_message = None\<rparr>)"

definition update_job_progress ::
  "real \<Rightarrow> (string \<rightharpoonup> IndexingJob) \<Rightarrow> string \<Rightarrow> int \<Rightarrow> int \<Rightarrow> string option \<Rightarrow> string option
     \<Rightarrow> (string \<rightharpoonup> IndexingJob)" where
  "update_job_progress now jobs jid c f status error =
     (case jobs jid of
        None \<Rightarrow> jobs
      | Some job \<Rightarrow>
          (let j1 = job\<lparr>completed := c, failed := f\<rparr>;
               j2 = (case status of
                       None \<Rightarrow> j1
                     | Some st \<Rightarrow>
                         (if st = [] then j1
                          else let j = j1\<lparr>job_status := st\<rparr> in
                            if st = ''processing'' \<and> started_at j = None
                            then j\<lparr>started_at := Some now\<rparr>
                            else if st \<in> set [''completed'', ''completed_with_errors'', ''failed'']
                            then j\<lparr>completed_at := Some now\<rparr>
                            else j));
               j3 = (case error of
                       None \<Rightarrow> j2
                     | Some msg \<Rightarrow> if msg = [] then j2 else j2\<lparr>job_error_message := Some msg\<rparr>)
           in jobs(jid \<mapsto> j3)))"

text \<open>
  \<open>get_indexing_job\<close>. For a job with a start time and \<open>completed > 0\<close> the source
  evaluates \<open>(func.now() - job.started_at).total_seconds()\<close>, where \<open>func\<close> is
  SQLAlchemy's namespace of SQL functions (\<open>from sqlalchemy.sql import func\<close>): the
  difference is an SQL expression object, which has no attribute \<open>total_seconds\<close>, so the
  statement raises \<open>AttributeError\<close> and the statements after it, which would compute
  the ETA, are not reached. \<open>get_indexing_job_body\<close> is the \<open>try\<close> block;
  \<open>get_indexing_job\<close> adds the handler, which logs the exception and returns \<open>None\<close>.
\<close>

definition get_indexing_job_body ::
  "(string \<rightharpoonup> IndexingJob) \<Rightarrow> string \<Rightarrow> exn + job_view option" where
  "get_indexing_job_body jobs jid =
     (case jobs jid of
        None \<Rightarrow> Inr None
      | Some job \<Rightarrow>
          (let progress_pct =
                 (if total_videos job > 0
                  then real_of_int (completed job + failed job) / real_of_int (total_videos job) * 100
                  else 0);
               eta = (if started_at job \<noteq> None \<and> completed job > 0
                      then Inl AttributeError
                      else Inr None)
           in case eta of
                Inl e \<Rightarrow> Inl e
              | Inr eta_seconds_value \<Rightarrow>
                  Inr (Some \<lparr>jv_job_id = job_id job, jv_status = job_status job,
                              jv_total_videos = total_videos job, jv_completed = completed job,
                              jv_failed = failed job, progress_percentage = progress_pct,
                              eta_seconds = eta_seconds_value, jv_created_at = created_at job,
                              jv_started_at = started_at job, jv_completed_at = completed_at job,
                              jv_error_message = job_error_message job\<rparr>)))"

definition get_indexing_job :: "(string \<rightharpoonup> IndexingJob) \<Rightarrow> string \<Rightarrow> job_view option" where
  "get_indexing_job jobs jid =
     (case get_indexing_job_body jobs jid of Inl e \<Rightarrow> None | Inr view \<Rightarrow> view)"

text \<open>The progress percentage in the words of the specification.\<close>

definition spec_progress :: "IndexingJob \<Rightarrow> real" where
  "spec_progress job =
     (if 0 < total_videos job
      then 100 * (real_of_int (completed job) + real_of_int (failed job))
             / real_of_int (total_videos job)
      else 0)"

text \<open>A job with one failed and no completed video, used to instantiate the theorems.\<close>

definition one_failed_job :: IndexingJob where
  "one_failed_job =
     \<lparr>job_id = ''job1'', total_videos = 2, completed = 0, failed = 1,
      job_status = ''processing'', created_at = Some 0, started_at = Some 0,
      completed_at = None, job_error_message = None\<rparr>"

definition one_completed_job :: IndexingJob where
  "one_completed_job =
     \<lparr>job_id = ''job2'', total_videos = 4, completed = 1, failed = 1,
      job_status = ''processing'', created_at = Some 0, started_at = Some 0,
      completed_at = None, job_error_message = None\<rparr>"

section \<open>Search service (\<open>services/search.py\<close>)\<close>

subsection \<open>Request and result models (\<open>db/models.py\<close>)\<close>

record SearchFilters =
  duration_min :: "real option"
  duration_max :: "real option"
  tags :: "string list option"

record SearchOptions =
  enable_reranking :: bool
  include_temporal_analysis :: bool

record SearchRequest =
  query_video_url :: string
  top_k :: int
  filters :: "SearchFilters option"
  options :: "SearchOptions option"

text \<open>Of the free-form \<open>metadata\<close> dictionary only float-valued entries are modelled.\<close>

record SearchResult =
  video_id :: string
  similarity_score :: real
  distance :: real
  video_path :: string
  thumbnail_path :: "string option"
  metadata :: "string \<rightharpoonup> real"

text \<open>
  \<open>SearchResponse\<close> without \<open>query_id\<close> (a random UUID) and
  \<open>processing_time_ms\<close> (a clock reading).
\<close>

record SearchResponse =
  results :: "SearchResult list"
  total_results :: nat

text \<open>\<open>SEARCH_TOP_K\<close> of \<open>core/config.py\<close>.\<close>

definition SEARCH_TOP_K :: int where
  "SEARCH_TOP_K = 50"

text \<open>The slice \<open>xs[:k]\<close>; a negative \<open>k\<close> counts from the end.\<close>

definition py_take :: "int \<Rightarrow> 'a list \<Rightarrow> 'a list" where
  "py_take k xs = (if 0 \<le> k then take (nat k) xs else take (length xs - nat (- k)) xs)"

subsection \<open>External collaborators\<close>

text \<open>
  The library function \<open>fastdtw(x, y, radius, dist)\<close> is a parameter: it returns a
  distance (the warping path is discarded by the caller) or raises.
  \<open>scipy.spatial.distance.euclidean\<close> is the Euclidean distance of two vectors.
\<close>

type_synonym fastdtw = "matrix \<Rightarrow> matrix \<Rightarrow> nat \<Rightarrow> (vec \<Rightarrow> vec \<Rightarrow> real) \<Rightarrow> exn + real"

definition euclidean :: "vec \<Rightarrow> vec \<Rightarrow> real" where
  "euclidean u v = sqrt (sum_list (map2 (\<lambda>a b. (a - b)\<^sup>2) u v))"

text \<open>
  On two sequences of one row each there is a single warping path, pairing the two
  rows, so \<open>fastdtw\<close> returns their distance. This instance is used for concrete runs.
\<close>

definition fastdtw_single_row :: fastdtw where
  "fastdtw_single_row x y radius row_dist =
     (case (x, y) of ([a], [b]) \<Rightarrow> Inr (row_dist a b) | _ \<Rightarrow> Inl ValueError)"

text \<open>
  The vector database (\<open>vector_db.search_similar\<close>) is a parameter of the search
  functions.
\<close>

type_synonym vector_search = "vec \<Rightarrow> int \<Rightarrow> SearchFilters option \<Rightarrow> exn + SearchResult list"

text \<open>
  Modelled from the spec: the module \<open>db/vector_db.py\<close>, which computes the similarity
  score of a vector-index hit, is missing from the sources. The specification gives the
  reported score as \<open>(1 + cosine) / 2\<close> clipped to \<open>[0, 1]\<close>.
\<close>

definition index_score :: "real \<Rightarrow> real" where
  "index_score cosine = min 1 (max 0 ((1 + cosine) / 2))"

text \<open>
  The temporal store: the file \<open>temporal_features/<video_id>_temporal.npy\<close>, keyed here
  by the video id. \<open>None\<close> is a missing file; \<open>np.load\<close> raises on a file that does
  not parse.
\<close>

datatype npy_file = Npy matrix | Corrupt

type_synonym temporal_store = "string \<rightharpoonup> npy_file"

subsection \<open>Re-ranking\<close>

text \<open>The result of \<open>_compute_dtw_distance\<close>: a float, \<open>float('inf')\<close> on failure.\<close>

datatype dtw_dist = Finite real | Infinite

text \<open>
  \<open>_compute_dtw_distance\<close>. Its only call site leaves \<open>use_gpu\<close> at the default
  \<open>False\<close>, so the branch executed is the call of \<open>fastdtw\<close> with radius 10 and the
  Euclidean row distance; an exception yields infinity.
\<close>

definition compute_dtw_distance :: "fastdtw \<Rightarrow> matrix \<Rightarrow> matrix \<Rightarrow> dtw_dist" where
  "compute_dtw_distance fdtw query_temporal candidate_temporal =
     (case fdtw query_temporal candidate_temporal 10 euclidean of
        Inr d \<Rightarrow> Finite d
      | Inl e \<Rightarrow> Infinite)"

text \<open>\<open>1.0 / (1.0 + dtw_dist)\<close>, which is \<open>0.0\<close> for an infinite distance.\<close>

definition dtw_similarity_of :: "dtw_dist \<Rightarrow> real" where
  "dtw_similarity_of d = (case d of Finite x \<Rightarrow> 1 / (1 + x) | Infinite \<Rightarrow> 0)"

text \<open>
  The body of the loop of \<open>_rerank_results\<close> for one candidate. A candidate whose file
  is missing, or for which anything in the computation raises, is appended unchanged.
\<close>

definition rerank_candidate ::
  "fastdtw \<Rightarrow> temporal_store \<Rightarrow> matrix \<Rightarrow> SearchResult \<Rightarrow> SearchResult" where
  "rerank_candidate fdtw store query_temporal candidate =
     (case store (video_id candidate) of
        None \<Rightarrow> candidate
      | Some Corrupt \<Rightarrow> candidate
      | Some (Npy candidate_temporal) \<Rightarrow>
          (let dtw_dist = compute_dtw_distance fdtw query_temporal candidate_temporal;
               dtw_similarity = dtw_similarity_of dtw_dist;
               query_avg = mean_axis0 query_temporal;
               candidate_avg = mean_axis0 candidate_temporal
           in case np_dot query_avg candidate_avg of
                Inl e \<Rightarrow> candidate
              | Inr dp \<Rightarrow>
                  (let cosine_sim = dp / (np_norm query_avg * np_norm candidate_avg + epsilon);
                       query_var = np_mean (var_axis0 query_temporal);
                       candidate_var = np_mean (var_axis0 candidate_temporal);
                       var_similarity =
                         1 - \<bar>query_var - candidate_var\<bar> / (query_var + candidate_var + epsilon);
                       temporal_score =
                         0.5 * dtw_similarity + 0.3 * cosine_sim + 0.2 * var_similarity;
                       combined_score = 0.7 * temporal_score + 0.3 * similarity_score candidate
                   in candidate\<lparr>similarity_score := combined_score,
                                metadata := (metadata candidate)
                                  (''temporal_score'' \<mapsto> temporal_score,
                                   ''dtw_similarity'' \<mapsto> dtw_similarity)\<rparr>)))"

text \<open>
  The candidates that the loop re-scores: the temporal file is there and loads, and
  the dot product of the two row-means does not raise, which is the case when the two
  matrices have the same number of columns.
\<close>

definition rescored :: "temporal_store \<Rightarrow> matrix \<Rightarrow> SearchResult \<Rightarrow> bool" where
  "rescored store query_temporal candidate =
     (case store (video_id candidate) of
        None \<Rightarrow> False
      | Some Corrupt \<Rightarrow> False
      | Some (Npy candidate_temporal) \<Rightarrow> ncols query_temporal = ncols candidate_temporal)"

text \<open>
  \<open>_rerank_results\<close>: the candidates are re-scored, sorted by score in descending
  order (Python's sort is stable, also with \<open>reverse=True\<close>) and cut to \<open>top_k\<close>. On
  an empty candidate list the log line reads \<open>reranked_candidates[0]\<close>, which raises; the
  handler then returns \<open>candidates[:top_k]\<close>.
\<close>

definition rerank_results ::
  "fastdtw \<Rightarrow> temporal_store \<Rightarrow> matrix \<Rightarrow> SearchResult list \<Rightarrow> int \<Rightarrow> SearchResult list" where
  "rerank_results fdtw store query_temporal candidates k =
     (let reranked_candidates = map (rerank_candidate fdtw store query_temporal) candidates;
          sorted_candidates = sort_key (\<lambda>x. - similarity_score x) reranked_candidates
      in if sorted_candidates = [] then py_take k candidates
         else py_take k sorted_candidates)"

subsection \<open>The fusion formula in the words of the specification\<close>

definition spec_mean_var :: "matrix \<Rightarrow> real" where
  "spec_mean_var m = (\<Sum>j<ncols m. spec_dim_var m j) / real (ncols m)"

definition spec_s_dtw :: "real \<Rightarrow> real" where
  "spec_s_dtw d = 1 / (1 + d)"

definition spec_s_var :: "matrix \<Rightarrow> matrix \<Rightarrow> real" where
  "spec_s_var q c =
     1 - \<bar>spec_mean_var q - spec_mean_var c\<bar> / (spec_mean_var q + spec_mean_var c + 1 / 10 ^ 8)"

text \<open>The cosine of the two row-means, as the specification states it.\<close>

definition spec_s_cos :: "matrix \<Rightarrow> matrix \<Rightarrow> real" where
  "spec_s_cos q c =
     (\<Sum>j<ncols q. spec_row_mean q j * spec_row_mean c j) /
     (sqrt (\<Sum>j<ncols q. (spec_row_mean q j)\<^sup>2) * sqrt (\<Sum>j<ncols c. (spec_row_mean c j)\<^sup>2))"

text \<open>The same quotient with \<open>1e-8\<close> added to the denominator.\<close>

definition spec_s_cos_eps :: "matrix \<Rightarrow> matrix \<Rightarrow> real" where
  "spec_s_cos_eps q c =
     (\<Sum>j<ncols q. spec_row_mean q j * spec_row_mean c j) /
     (sqrt (\<Sum>j<ncols q. (spec_row_mean q j)\<^sup>2) * sqrt (\<Sum>j<ncols c. (spec_row_mean c j)\<^sup>2)
        + 1 / 10 ^ 8)"

definition spec_final_score :: "real \<Rightarrow> real \<Rightarrow> real \<Rightarrow> real \<Rightarrow> real" where
  "spec_final_score s_dtw s_cos s_var s_global =
     0.7 * (0.5 * s_dtw + 0.3 * s_cos + 0.2 * s_var) + 0.3 * s_global"

text \<open>Concrete candidates and temporal matrices, used to instantiate the theorems.\<close>

definition candidate_of :: "string \<Rightarrow> real \<Rightarrow> SearchResult" where
  "candidate_of vid score =
     \<lparr>video_id = vid, similarity_score = score, distance = 1 - score,
      video_path = ''/videos/'' @ vid, thumbnail_path = None, metadata = Map.empty\<rparr>"

definition store_of :: "string \<Rightarrow> matrix \<Rightarrow> temporal_store" where
  "store_of vid m = [vid \<mapsto> Npy m]"

subsection \<open>Query encoding with the two-tier cache\<close>

text \<open>
  A file of the disk cache \<open>query_cache/<hash>.npz\<close>: it either loads as a
  \<open>VideoFeatures\<close> value or fails to load.
\<close>

datatype cache_file = CacheFile VideoFeatures | CorruptFile

text \<open>
  The state the search service reads and writes: the in-memory dictionary
  \<open>query_cache\<close> (keyed by \<open>"query_" + hash\<close>), the directory of cache files (keyed by
  the hash), and a ghost log \<open>encoder_calls\<close> of the paths handed to the encoder, newest
  first.
\<close>

record search_state =
  query_cache :: "string \<rightharpoonup> VideoFeatures"
  disk_cache :: "string \<rightharpoonup> cache_file"
  encoder_calls :: "string list"

text \<open>
  What the service reads from its surroundings: the bytes of readable files, the MD5
  function, the encoder, whether cache files can be written and deleted, the vector
  database, the \<open>fastdtw\<close> library and the temporal store.
\<close>

record search_env =
  file_bytes :: "string \<rightharpoonup> string"
  md5_hex :: "string \<Rightarrow> string"
  encode_video :: encoder
  disk_writable :: bool
  search_similar :: vector_search
  fastdtw_lib :: fastdtw
  temporal_files_env :: temporal_store

text \<open>
  The hash of the first MiB of the file; when the file cannot be read, the hash of the
  path.
\<close>

definition file_hash_of :: "search_env \<Rightarrow> string \<Rightarrow> string" where
  "file_hash_of env vpath =
     (case file_bytes env vpath of
        Some content \<Rightarrow> md5_hex env (take (1024 * 1024) content)
      | None \<Rightarrow> md5_hex env vpath)"

definition cache_key_of :: "string \<Rightarrow> string" where
  "cache_key_of file_hash = ''query_'' @ file_hash"

text \<open>
  \<open>_encode_query_video\<close>, run without interruption: memory cache, disk cache (a file
  that fails to load is deleted, if it can be), encoder, then both caches are filled.
  A failure to write the cache file is logged and ignored.
\<close>

definition encode_query_video ::
  "search_env \<Rightarrow> search_state \<Rightarrow> string \<Rightarrow> (exn + VideoFeatures) \<times> search_state" where
  "encode_query_video env s vpath =
     (let file_hash = file_hash_of env vpath;
          cache_key = cache_key_of file_hash
      in case query_cache s cache_key of
           Some features \<Rightarrow> (Inr features, s)
         | None \<Rightarrow>
             (case disk_cache s file_hash of
                Some (CacheFile features) \<Rightarrow>
                  (Inr features, s\<lparr>query_cache := (query_cache s)(cache_key \<mapsto> features)\<rparr>)
              | other \<Rightarrow>
                  (let s1 = (if other = Some CorruptFile \<and> disk_writable env
                             then s\<lparr>disk_cache := (disk_cache s)(file_hash := None)\<rparr>
                             else s);
                       s2 = s1\<lparr>encoder_calls := vpath # encoder_calls s1\<rparr>
                   in case encode_video env vpath of
                        Inl e \<Rightarrow> (Inl e, s2)
                      | Inr features \<Rightarrow>
                          (let s3 = (if disk_writable env
                                     then s2\<lparr>disk_cache :=
                                               (disk_cache s2)(file_hash \<mapsto> CacheFile features)\<rparr>
                                     else s2)
                           in (Inr features,
                               s3\<lparr>query_cache := (query_cache s3)(cache_key \<mapsto> features)\<rparr>)))))"

subsection \<open>The search request\<close>

text \<open>
  \<open>SearchService.search\<close>: encode the query, fetch \<open>SEARCH_TOP_K\<close> candidates from
  the vector database, then either re-rank or cut to \<open>top_k\<close>. Exceptions are logged
  and re-raised.
\<close>

definition search ::
  "search_env \<Rightarrow> search_state \<Rightarrow> SearchRequest \<Rightarrow> (exn + SearchResponse) \<times> search_state" where
  "search env s request =
     (case encode_query_video env s (query_video_url request) of
        (Inl e, s') \<Rightarrow> (Inl e, s')
      | (Inr query_features, s') \<Rightarrow>
          (case search_similar env (global_features query_features) SEARCH_TOP_K (filters request) of
             Inl e \<Rightarrow> (Inl e, s')
           | Inr candidates \<Rightarrow>
               (let enable_rr = (case options request of
                                   Some opts \<Rightarrow> enable_reranking opts
                                 | None \<Rightarrow> False);
                    cands = (if enable_rr \<and> length candidates > 0
                             then rerank_results (fastdtw_lib env) (temporal_files_env env)
                                    (temporal_features query_features) candidates (top_k request)
                             else py_take (top_k request) candidates)
                in (Inr \<lparr>results = cands, total_results = length cands\<rparr>, s'))))"

text \<open>Whether the query's features are already in one of the two cache tiers.\<close>

definition cached :: "search_env \<Rightarrow> search_state \<Rightarrow> string \<Rightarrow> bool" where
  "cached env s vpath =
     (let file_hash = file_hash_of env vpath
      in query_cache s (cache_key_of file_hash) \<noteq> None \<or>
         (case disk_cache s file_hash of Some (CacheFile f) \<Rightarrow> True | _ \<Rightarrow> False))"

subsection \<open>Concurrent queries\<close>

text \<open>
  Several requests run \<open>_encode_query_video\<close> in threads of one process. The function
  takes \<open>cache_lock\<close> around each access to the in-memory dictionary (the \<open>with\<close>
  blocks of lines 84, 110 and 141) and around nothing else. A thread is modelled by a
  program counter and moves in the atomic steps below; between two steps of one thread
  any other thread may run. At \<open>MemCheck\<close> and at \<open>MemStore\<close> the thread is about to
  enter a \<open>with\<close> block, that is, to acquire the lock; at \<open>MemCheckLocked\<close> and at
  \<open>MemStoreLocked\<close> it is inside the block and holds the lock.
\<close>

datatype pc =
    Start string
  | MemCheck string string
  | MemCheckLocked string string
  | DiskCheck string string
  | Encode string string
  | DiskSave string string VideoFeatures
  | MemStore string VideoFeatures
  | MemStoreLocked string VideoFeatures
  | Done VideoFeatures
  | Failed exn

text \<open>
  The shared state, the holder of \<open>cache_lock\<close> (\<open>None\<close> when it is free), one program
  counter per thread, and a ghost log of the threads that invoked the encoder, newest
  first.
\<close>

record sys =
  shared :: search_state
  lock :: "nat option"
  pcs :: "pc list"
  encoded_by :: "nat list"

definition set_pc :: "sys \<Rightarrow> nat \<Rightarrow> pc \<Rightarrow> sys" where
  "set_pc s t p = s\<lparr>pcs := (pcs s)[t := p]\<rparr>"

text \<open>
  One step of thread \<open>t\<close>. A thread that is about to acquire the lock while another
  thread holds it is blocked: its step leaves the state as it is. Leaving a \<open>with\<close>
  block releases the lock.
\<close>

definition thread_step :: "search_env \<Rightarrow> sys \<Rightarrow> nat \<Rightarrow> sys" where
  "thread_step env s t =
     (if t < length (pcs s) then
        (case pcs s ! t of
           Start vpath \<Rightarrow> set_pc s t (MemCheck vpath (file_hash_of env vpath))
         | MemCheck vpath file_hash \<Rightarrow>
             (case lock s of
                None \<Rightarrow> set_pc (s\<lparr>lock := Some t\<rparr>) t (MemCheckLocked vpath file_hash)
              | Some holder \<Rightarrow> s)
         | MemCheckLocked vpath file_hash \<Rightarrow>
             (case query_cache (shared s) (cache_key_of file_hash) of
                Some features \<Rightarrow> set_pc (s\<lparr>lock := None\<rparr>) t (Done features)
              | None \<Rightarrow> set_pc (s\<lparr>lock := None\<rparr>) t (DiskCheck vpath file_hash))
         | DiskCheck vpath file_hash \<Rightarrow>
             (case disk_cache (shared s) file_hash of
                Some (CacheFile features) \<Rightarrow> set_pc s t (MemStore file_hash features)
              | Some CorruptFile \<Rightarrow>
                  set_pc (if disk_writable env
                          then s\<lparr>shared := (shared s)
                                   \<lparr>disk_cache := (disk_cache (shared s))(file_hash := None)\<rparr>\<rparr>
                          else s)
                    t (Encode vpath file_hash)
              | None \<Rightarrow> set_pc s t (Encode vpath file_hash))
         | Encode vpath file_hash \<Rightarrow>
             (let s1 = s\<lparr>shared := (shared s)
                            \<lparr>encoder_calls := vpath # encoder_calls (shared s)\<rparr>,
                         encoded_by := t # encoded_by s\<rparr>
              in case encode_video env vpath of
                   Inl e \<Rightarrow> set_pc s1 t (Failed e)
                 | Inr features \<Rightarrow> set_pc s1 t (DiskSave vpath file_hash features))
         | DiskSave vpath file_hash features \<Rightarrow>
             set_pc (if disk_writable env
                     then s\<lparr>shared := (shared s)
                              \<lparr>disk_cache :=
                                 (disk_cache (shared s))(file_hash \<mapsto> CacheFile features)\<rparr>\<rparr>
                     else s)
               t (MemStore file_hash features)
         | MemStore file_hash features \<Rightarrow>
             (case lock s of
                None \<Rightarrow> set_pc (s\<lparr>lock := Some t\<rparr>) t (MemStoreLocked file_hash features)
              | Some holder \<Rightarrow> s)
         | MemStoreLocked file_hash features \<Rightarrow>
             set_pc (s\<lparr>shared := (shared s)
                         \<lparr>query_cache :=
                            (query_cache (shared s))(cache_key_of file_hash \<mapsto> features)\<rparr>,
                       lock := None\<rparr>)
               t (Done features)
         | Done features \<Rightarrow> s
         | Failed e \<Rightarrow> s)
      else s)"

text \<open>A schedule is the list of thread numbers in the order in which they take a step.\<close>

definition run_schedule :: "search_env \<Rightarrow> sys \<Rightarrow> nat list \<Rightarrow> sys" where
  "run_schedule env s schedule = foldl (thread_step env) s schedule"

definition finished :: "pc \<Rightarrow> bool" where
  "finished p = (case p of Done f \<Rightarrow> True | Failed e \<Rightarrow> True | _ \<Rightarrow> False)"

text \<open>A thread that is inside a \<open>with\<close> block, and one that is about to enter one.\<close>

definition holds_lock :: "pc \<Rightarrow> bool" where
  "holds_lock p = (case p of MemCheckLocked v h \<Rightarrow> True | MemStoreLocked h f \<Rightarrow> True | _ \<Rightarrow> False)"

definition wants_lock :: "pc \<Rightarrow> bool" where
  "wants_lock p = (case p of MemCheck v h \<Rightarrow> True | MemStore h f \<Rightarrow> True | _ \<Rightarrow> False)"

text \<open>A thread that is in the call of the encoder.\<close>

definition at_encode :: "pc \<Rightarrow> bool" where
  "at_encode p = (case p of Encode v h \<Rightarrow> True | _ \<Rightarrow> False)"

text \<open>A thread that has not yet returned from the call of the encoder.\<close>

definition before_encode :: "pc \<Rightarrow> bool" where
  "before_encode p =
     (case p of Start v \<Rightarrow> True | MemCheck v h \<Rightarrow> True | MemCheckLocked v h \<Rightarrow> True
              | DiskCheck v h \<Rightarrow> True | Encode v h \<Rightarrow> True | _ \<Rightarrow> False)"

text \<open>
  A thread that is at the start of a query for a file whose features are in the memory
  cache (or that has read them from there).
\<close>

definition served_from_memory :: "search_env \<Rightarrow> sys \<Rightarrow> pc \<Rightarrow> bool" where
  "served_from_memory env s p =
     (case p of
        Start v \<Rightarrow> query_cache (shared s) (cache_key_of (file_hash_of env v)) \<noteq> None
      | MemCheck v h \<Rightarrow> query_cache (shared s) (cache_key_of h) \<noteq> None
      | MemCheckLocked v h \<Rightarrow> query_cache (shared s) (cache_key_of h) \<noteq> None
      | Done f \<Rightarrow> True
      | _ \<Rightarrow> False)"

text \<open>
  Three invariants of the thread model. \<open>thread_inv\<close>: no thread occurs twice in
  \<open>encoded_by\<close>, and every thread in it is past the call of the encoder.
  \<open>lock_inv\<close>: the holder of the lock is the one thread that is inside a \<open>with\<close>
  block. \<open>mem_served\<close>: thread \<open>t\<close> is being served from the memory cache and has not
  invoked the encoder.
\<close>

definition thread_inv :: "sys \<Rightarrow> bool" where
  "thread_inv s \<longleftrightarrow>
     distinct (encoded_by s) \<and>
     list_all (\<lambda>t. t < length (pcs s) \<and> \<not> before_encode (pcs s ! t)) (encoded_by s)"

definition lock_inv :: "sys \<Rightarrow> bool" where
  "lock_inv s \<longleftrightarrow>
     list_all (\<lambda>t. holds_lock (pcs s ! t) = (lock s = Some t)) [0..<length (pcs s)] \<and>
     (case lock s of None \<Rightarrow> True | Some t \<Rightarrow> t < length (pcs s))"

definition mem_served :: "search_env \<Rightarrow> sys \<Rightarrow> nat \<Rightarrow> bool" where
  "mem_served env s t \<longleftrightarrow>
     t < length (pcs s) \<and> served_from_memory env s (pcs s ! t) \<and> t \<notin> set (encoded_by s)"

text \<open>
  The state in which the given queries are about to start, with the lock free, and
  empty caches.
\<close>

definition start_sys :: "search_state \<Rightarrow> string list \<Rightarrow> sys" where
  "start_sys s vpaths = \<lparr>shared = s, lock = None, pcs = map Start vpaths, encoded_by = []\<rparr>"

definition empty_search_state :: search_state where
  "empty_search_state = \<lparr>query_cache = Map.empty, disk_cache = Map.empty, encoder_calls = []\<rparr>"

text \<open>A concrete environment, used to instantiate the theorems.\<close>

definition demo_hit :: SearchResult where
  "demo_hit = candidate_of ''clip'' 1"

definition demo_env :: search_env where
  "demo_env =
     \<lparr>file_bytes = [''clip.mp4'' \<mapsto> ''bytes''],
      md5_hex = (\<lambda>content. ''h'' @ content),
      encode_video = walking_encoder,
      disk_writable = True,
      search_similar = (\<lambda>v k f. Inr [demo_hit]),
      fastdtw_lib = fastdtw_single_row,
      temporal_files_env = Map.empty\<rparr>"

definition demo_request :: "int \<Rightarrow> SearchRequest" where
  "demo_request k =
     \<lparr>query_video_url = ''clip.mp4'', top_k = k, filters = None, options = None\<rparr>"

text \<open>The search state after one query for \<open>clip.mp4\<close> has filled the memory cache.\<close>

definition warm_state :: search_state where
  "warm_state =
     empty_search_state
       \<lparr>query_cache := [cache_key_of (file_hash_of demo_env ''clip.mp4'') \<mapsto> clip_features]\<rparr>"

section \<open>Indexing task (\<open>workers/tasks.py\<close>)\<close>

subsection \<open>Stores\<close>

text \<open>
  A row of the table \<open>videos\<close>, with the columns the task can write. The timestamp
  \<open>indexed_at\<close> and the columns the task leaves empty are left out.
\<close>

record Video =
  video_url :: string
  duration :: "real option"
  file_size :: "nat option"
  status :: string
  error_message :: "string option"
  temporal_features_path :: "string option"
  processing_time_ms :: "real option"

text \<open>An entry of the vector database.\<close>

record vector_entry =
  ve_embedding :: vec
  ve_video_path :: string
  ve_duration :: real
  ve_created_at :: real

text \<open>
  The calls that reach one of the three stores: \<open>update_indexing_status\<close>, and the
  three calls of the commit, \<open>vector_db.insert_video\<close> (line 75),
  \<open>store_temporal_features\<close> (line 87) and \<open>update_video_metadata\<close> (line 105).
\<close>

datatype store_op =
    StatusUpdate string string
  | VectorInsert string
  | TemporalWrite string
  | MetadataUpdate string

text \<open>
  The three stores: the vector index, the files of temporal features (keyed by video
  id) and the table of videos; \<open>oplog\<close> is a ghost log of the store calls made, oldest
  first.
\<close>

record task_world =
  vector_index :: "string \<rightharpoonup> vector_entry"
  temporal_files :: "string \<rightharpoonup> matrix"
  videos :: "string \<rightharpoonup> Video"
  oplog :: "store_op list"

text \<open>
  What one attempt meets: whether the commits of its status updates succeed (the
  database function catches its own exceptions, rolls back and returns), and whether
  the local path names an existing file.
\<close>

record attempt_env =
  status_commit_ok :: bool
  path_exists :: bool

text \<open>The text that \<open>str(e)\<close> yields for an exception, abbreviated to its class name.\<close>

fun str_exn :: "exn \<Rightarrow> string" where
  "str_exn NameError = ''NameError''"
| "str_exn ValueError = ''ValueError''"
| "str_exn KeyError = ''KeyError''"
| "str_exn AttributeError = ''AttributeError''"
| "str_exn ZeroDivisionError = ''ZeroDivisionError''"
| "str_exn IOError = ''IOError''"
| "str_exn DecodeError = ''DecodeError''"
| "str_exn ResourceError = ''ResourceError''"
| "str_exn ModelError = ''ModelError''"
| "str_exn InsertFailed = ''Failed to insert into vector database''"
| "str_exn MaxRetriesExceededError = ''MaxRetriesExceededError''"

definition log_op :: "store_op \<Rightarrow> task_world \<Rightarrow> task_world" where
  "log_op op w = w\<lparr>oplog := oplog w @ [op]\<rparr>"

text \<open>
  \<open>update_indexing_status\<close> of \<open>db/postgres.py\<close>: the row is created if it is missing;
  the error text is stored only with the status \<open>failed\<close>. When the commit fails the
  function rolls back and returns normally.
\<close>

definition update_indexing_status ::
  "attempt_env \<Rightarrow> task_world \<Rightarrow> string \<Rightarrow> string \<Rightarrow> string option \<Rightarrow> task_world" where
  "update_indexing_status env w vid st error =
     (let w1 = log_op (StatusUpdate vid st) w in
      if status_commit_ok env then
        (let video = (case videos w1 vid of
                        None \<Rightarrow> \<lparr>video_url = [], duration = None, file_size = None,
                                  status = st, error_message = None,
                                  temporal_features_path = None, processing_time_ms = None\<rparr>
                      | Some v \<Rightarrow> v\<lparr>status := st\<rparr>);
             video' = (if st = ''failed'' then video\<lparr>error_message := error\<rparr> else video)
         in w1\<lparr>videos := (videos w1)(vid \<mapsto> video')\<rparr>)
      else w1)"

subsection \<open>The task\<close>

text \<open>
  The module uses the name \<open>config\<close> (lines 35, 44, 53, 184, 223), but none of its
  imports (lines 2 to 12) and none of its statements binds it. The first statement
  that reads the name therefore raises \<open>NameError\<close>: in \<open>download_video\<close> that is
  line 184, the first statement after its two local imports and before any request is
  made, and in \<open>index_video_task\<close> it is line 35, reached once the local path is known
  to exist.
\<close>

definition download_video :: "string \<Rightarrow> string \<Rightarrow> exn + string" where
  "download_video url vid = Inl NameError"

definition is_remote :: "string \<Rightarrow> bool" where
  "is_remote url =
     (take 7 url = ''http://'' \<or> take 8 url = ''https://'' \<or> take 5 url = ''s3://'')"

record task_result =
  tr_video_id :: string
  tr_status :: string
  tr_duration :: real

text \<open>
  The \<open>try\<close> block of \<open>index_video_task\<close>: the status is set to \<open>processing\<close>, a
  remote video is downloaded, a missing file raises \<open>ValueError\<close> (line 31), and line 35
  raises \<open>NameError\<close>. The statements after line 35 (optional pre-processing, the call
  of the encoder, the three commit calls, the cleanup and the final status update) are
  never reached, so the block always ends with an exception.
\<close>

definition index_video_body ::
  "attempt_env \<Rightarrow> task_world \<Rightarrow> string \<Rightarrow> string \<Rightarrow> (exn + task_result) \<times> task_world" where
  "index_video_body env w vid url =
     (let w1 = update_indexing_status env w vid ''processing'' None in
      case (if is_remote url then download_video url vid else Inr url) of
        Inl e \<Rightarrow> (Inl e, w1)
      | Inr local_path \<Rightarrow>
          if \<not> path_exists env then (Inl ValueError, w1)
          else (Inl NameError, w1))"

text \<open>How a task invocation ends: it returns, it is rescheduled, or it raises.\<close>

datatype task_outcome = Returned task_result | Retry nat | Raised exn

text \<open>\<open>max_retries\<close> of the task decorator.\<close>

definition max_retries :: nat where
  "max_retries = 3"

text \<open>
  Celery's \<open>self.retry(exc=e, countdown=c)\<close>: the task is rescheduled to run again
  after \<open>c\<close> seconds with \<open>request.retries\<close> increased by one; once \<open>request.retries\<close>
  has reached \<open>max_retries\<close>, the call raises \<open>exc\<close> instead.
\<close>

definition celery_retry :: "nat \<Rightarrow> exn \<Rightarrow> nat \<Rightarrow> task_outcome" where
  "celery_retry retries exc countdown =
     (if retries + 1 > max_retries then Raised exc else Retry countdown)"

text \<open>
  \<open>index_video_task\<close> with its two handlers. \<open>MaxRetriesExceededError\<close> raised inside
  the \<open>try\<close> block is re-raised; every other exception marks the video failed and calls
  \<open>self.retry\<close> with the countdown \<open>60 * 2 ** retries\<close>.
\<close>

definition index_video_task ::
  "attempt_env \<Rightarrow> task_world \<Rightarrow> string \<Rightarrow> string \<Rightarrow> nat \<Rightarrow> task_outcome \<times> task_world" where
  "index_video_task env w vid url retries =
     (case index_video_body env w vid url of
        (Inr r, w') \<Rightarrow> (Returned r, w')
      | (Inl MaxRetriesExceededError, w') \<Rightarrow>
          (Raised MaxRetriesExceededError,
           update_indexing_status env w' vid ''failed'' (Some ''Max retries exceeded''))
      | (Inl e, w') \<Rightarrow>
          (celery_retry retries e (60 * 2 ^ retries),
           update_indexing_status env w' vid ''failed'' (Some (str_exn e))))"

text \<open>
  The worker: it runs the first attempt with \<open>retries = 0\<close> and, whenever an attempt
  asks for a retry, the next attempt with \<open>retries\<close> increased by one. Each attempt
  meets the next element of the list of environments; the result is the final outcome
  (\<open>None\<close> while a retry is still pending when the list ends), the countdowns of the
  retries in order, and the stores.
\<close>

fun run_task ::
  "attempt_env list \<Rightarrow> task_world \<Rightarrow> string \<Rightarrow> string \<Rightarrow> nat
     \<Rightarrow> task_outcome option \<times> nat list \<times> task_world" where
  "run_task [] w vid url retries = (None, [], w)"
| "run_task (env # envs) w vid url retries =
     (case index_video_task env w vid url retries of
        (Retry countdown, w') \<Rightarrow>
          (case run_task envs w' vid url (retries + 1) of
             (outcome, countdowns, w'') \<Rightarrow> (outcome, countdown # countdowns, w''))
      | (outcome, w') \<Rightarrow> (Some outcome, [], w'))"

text \<open>The exception with which the \<open>try\<close> block ends.\<close>

definition body_exn :: "attempt_env \<Rightarrow> string \<Rightarrow> exn" where
  "body_exn env url = (if \<not> is_remote url \<and> \<not> path_exists env then ValueError else NameError)"

fun is_returned :: "task_outcome \<Rightarrow> bool" where
  "is_returned (Returned r) = True"
| "is_returned (Retry c) = False"
| "is_returned (Raised e) = False"

text \<open>The calls of the commit among the logged store calls.\<close>

fun is_commit_op :: "store_op \<Rightarrow> bool" where
  "is_commit_op (StatusUpdate vid st) = False"
| "is_commit_op (VectorInsert vid) = True"
| "is_commit_op (TemporalWrite vid) = True"
| "is_commit_op (MetadataUpdate vid) = True"

definition commit_ops :: "task_world \<Rightarrow> store_op list" where
  "commit_ops w = filter is_commit_op (oplog w)"

definition status_of :: "task_world \<Rightarrow> string \<Rightarrow> string option" where
  "status_of w vid = map_option status (videos w vid)"

text \<open>Concrete stores and attempts, used to instantiate the theorems.\<close>

definition empty_world :: task_world where
  "empty_world =
     \<lparr>vector_index = Map.empty, temporal_files = Map.empty, videos = Map.empty, oplog = []\<rparr>"

text \<open>An attempt on a file that exists, and one on a file that is missing.\<close>

definition file_present :: attempt_env where
  "file_present = \<lparr>status_commit_ok = True, path_exists = True\<rparr>"

definition file_missing :: attempt_env where
  "file_missing = \<lparr>status_commit_ok = True, path_exists = False\<rparr>"

text \<open>The stores with the video \<open>v1\<close> indexed: vector entry, temporal matrix and row.\<close>

definition indexed_world :: task_world where
  "indexed_world =
     \<lparr>vector_index =
        [''v1'' \<mapsto> \<lparr>ve_embedding = [1], ve_video_path = ''/data/a.mp4'',
                     ve_duration = 8, ve_created_at = 0\<rparr>],
      temporal_files = [''v1'' \<mapsto> [[0], [2], [4]]],
      videos =
        [''v1'' \<mapsto> \<lparr>video_url = ''/data/a.mp4'', duration = Some 8, file_size = Some 1000,
                     status = ''completed'', error_message = None,
                     temporal_features_path = Some ''./storage/temporal_features/v1_temporal.npy'',
                     processing_time_ms = Some 120\<rparr>],
      oplog = []\<rparr>"

section \<open>The array operations by index\<close>

lemma sum_list_map_nth: "sum_list (map f xs) = (\<Sum>t<length xs. f (xs ! t) :: real)"
proof -
  have "sum_list (map f xs) = (\<Sum>t<length (map f xs). map f xs ! t)"
    by (simp add: sum_list_sum_nth atLeast0LessThan)
  also have "\<dots> = (\<Sum>t<length xs. f (xs ! t))"
    by (intro sum.cong) simp_all
  finally show ?thesis .
qed

lemma sum_list_map_upt0: "sum_list (map f [0..<n]) = (\<Sum>j<n. f j :: real)"
  by (simp add: interv_sum_list_conv_sum_set_nat atLeast0LessThan)

lemma np_mean_column: "np_mean (column j m) = spec_row_mean m j"
  by (simp add: np_mean_def column_def spec_row_mean_def sum_list_map_nth)

lemma np_var_column: "np_var (column j m) = spec_dim_var m j"
  unfolding np_var_def np_mean_column
  by (simp add: np_mean_def column_def spec_dim_var_def sum_list_map_nth o_def)

lemma sum_list_map2_nth:
  "length xs = length ys \<Longrightarrow>
     sum_list (map2 f xs ys) = (\<Sum>i<length xs. f (xs ! i) (ys ! i) :: real)"
proof -
  assume l: "length xs = length ys"
  have "sum_list (map2 f xs ys) = (\<Sum>i<length (map2 f xs ys). map2 f xs ys ! i)"
    by (simp add: sum_list_sum_nth atLeast0LessThan)
  also have "\<dots> = (\<Sum>i<length xs. f (xs ! i) (ys ! i))"
    using l by (intro sum.cong) simp_all
  finally show ?thesis .
qed

lemma length_var_axis0: "length (var_axis0 m) = ncols m"
  by (simp add: var_axis0_def)

lemma var_axis0_nth: "j < ncols m \<Longrightarrow> var_axis0 m ! j = spec_dim_var m j"
  by (simp add: var_axis0_def np_var_column)

lemma ndarray2_row_length: "ndarray2 m \<Longrightarrow> t < length m \<Longrightarrow> length (m ! t) = ncols m"
  by (simp add: ndarray2_def list_all_length)

text \<open>The length of the difference of two rows.\<close>

lemma np_norm_diff:
  "length a = n \<Longrightarrow> length c = n \<Longrightarrow>
     np_norm (map2 (\<lambda>x y. x - y) a c) = sqrt (\<Sum>j<n. (a ! j - c ! j)\<^sup>2)"
proof -
  assume a: "length a = n" and c: "length c = n"
  have "sum_list (map (\<lambda>x. x\<^sup>2) (map2 (\<lambda>x y. x - y) a c))
          = sum_list (map2 (\<lambda>x y. (x - y)\<^sup>2) a c)"
    by (simp add: map_zip_map2 o_def split_def)
  also have "\<dots> = (\<Sum>j<length a. (a ! j - c ! j)\<^sup>2)"
    using a c by (intro sum_list_map2_nth) simp
  finally show ?thesis
    using a by (simp add: np_norm_def)
qed

text \<open>The rows of \<open>np.diff\<close> and the sum of their lengths.\<close>

lemma length_np_diff: "length (np_diff m) = length m - 1"
  by (simp add: np_diff_def)

lemma np_diff_nth:
  "t < length m - 1 \<Longrightarrow> np_diff m ! t = map2 (\<lambda>x y. x - y) (m ! (t + 1)) (m ! t)"
  by (simp add: np_diff_def nth_tl)

lemma sum_norm_np_diff:
  assumes "ndarray2 m"
  shows "sum_list (norm_axis1 (np_diff m))
           = (\<Sum>t<length m - 1. sqrt (\<Sum>j<ncols m. (m ! (t + 1) ! j - m ! t ! j)\<^sup>2))"
proof -
  have "sum_list (norm_axis1 (np_diff m)) = (\<Sum>t<length (np_diff m). np_norm (np_diff m ! t))"
    by (simp add: norm_axis1_def sum_list_map_nth)
  also have "\<dots> = (\<Sum>t<length m - 1. np_norm (np_diff m ! t))"
    by (simp add: length_np_diff)
  also have "\<dots> = (\<Sum>t<length m - 1. sqrt (\<Sum>j<ncols m. (m ! (t + 1) ! j - m ! t ! j)\<^sup>2))"
  proof (intro sum.cong refl)
    fix t assume "t \<in> {..<length m - 1}"
    then have t: "t < length m - 1" by simp
    then have "length (m ! (t + 1)) = ncols m" "length (m ! t) = ncols m"
      using assms by (simp_all add: ndarray2_row_length)
    then show "np_norm (np_diff m ! t) = sqrt (\<Sum>j<ncols m. (m ! (t + 1) ! j - m ! t ! j)\<^sup>2)"
      using t by (simp add: np_diff_nth np_norm_diff)
  qed
  finally show ?thesis .
qed

section \<open>Properties of the anomaly detection service\<close>

text \<open>The motion magnitude of a matrix of at least two rows is the mean of the specification.\<close>

lemma motion_of_spec:
  assumes "ndarray2 m" "2 \<le> length m"
  shows "motion_of m = Some (spec_motion_magnitude m)"
proof -
  have "length (norm_axis1 (np_diff m)) = length m - 1"
    by (simp add: norm_axis1_def length_np_diff)
  moreover from this assms(2) have "norm_axis1 (np_diff m) \<noteq> []"
    by auto
  ultimately show ?thesis
    by (simp add: motion_of_def np_mean_nan_def np_mean_def spec_motion_magnitude_def
        sum_norm_np_diff [OF assms(1)])
qed

text \<open>A matrix of a single row has no motion magnitude.\<close>

lemma motion_of_single_row: "motion_of [r] = None"
  by (simp add: motion_of_def np_mean_nan_def norm_axis1_def np_diff_def)

text \<open>
  For features of a single row the motion magnitude, its z-score and the anomaly score
  are \<open>nan\<close>, and the video is not flagged.
\<close>

lemma detect_anomaly_single_row:
  assumes b: "baseline_features s = Some b"
    and e: "enc p = Inr f"
    and t: "temporal_features f = [r]"
    and lm: "length (mean_temporal_variance b) = length r"
    and ls: "length (std_temporal_variance b) = length r"
  shows "\<exists>res. detect_anomaly enc s p tau = (Inr res, s\<lparr>an_encoded := p # an_encoded s\<rparr>) \<and>
           motion_magnitude res = None \<and> motion_z_score res = None \<and>
           anomaly_score res = None \<and> \<not> is_anomaly res"
  unfolding detect_anomaly_def
  by (simp add: b e t lm ls motion_of_single_row np_broadcast_def var_axis0_def ncols_def Let_def)

text \<open>
  Claim C9. A baseline \<open>b\<close> is stored, and the encoder returns features whose temporal
  matrix has at least two rows and as many columns as the baseline vectors have
  entries. Then \<open>detect_anomaly\<close> invokes the encoder once and returns a result in
  which the motion magnitude \<open>m\<close> is the mean length of the differences of consecutive
  rows of the temporal matrix, the motion z-score is \<open>(m - \<mu>\<^sub>m) / (\<sigma>\<^sub>m + 1e-8)\<close>, the
  variance z-score is the mean over the dimensions of \<open>|v - \<mu>\<^sub>v| / (\<sigma>\<^sub>v + 1e-8)\<close> for
  the per-dimension variance \<open>v\<close> of the temporal matrix, and the anomaly score is
  \<open>(|z_motion| + z_variance) / 2\<close>; the video is flagged anomalous exactly when that
  score exceeds the threshold. The default threshold is 2.
\<close>

theorem C9_anomaly_score_formula:
  assumes b: "baseline_features s = Some b"
    and e: "enc p = Inr f"
    and shape: "ndarray2 (temporal_features f)" "2 \<le> length (temporal_features f)"
    and lm: "length (mean_temporal_variance b) = ncols (temporal_features f)"
    and ls: "length (std_temporal_variance b) = ncols (temporal_features f)"
  shows "\<exists>r. detect_anomaly enc s p tau = (Inr r, s\<lparr>an_encoded := p # an_encoded s\<rparr>) \<and>
           motion_magnitude r = Some (spec_motion_magnitude (temporal_features f)) \<and>
           motion_z_score r =
             Some (spec_z_motion (spec_motion_magnitude (temporal_features f))
                     (mean_motion_magnitude b) (std_motion_magnitude b)) \<and>
           variance_z_score r =
             Some (spec_z_variance (temporal_features f)
                     (mean_temporal_variance b) (std_temporal_variance b)) \<and>
           anomaly_score r = Some (spec_anomaly_score (temporal_features f) b) \<and>
           (is_anomaly r \<longleftrightarrow> spec_anomaly_score (temporal_features f) b > tau) \<and>
           ar_threshold r = tau \<and>
           default_threshold = 2"
proof -
  let ?T = "temporal_features f"
  let ?v = "var_axis0 ?T"
  let ?d = "map2 (\<lambda>x y. \<bar>x - y\<bar>) ?v (mean_temporal_variance b)"
  let ?q = "map2 (\<lambda>x y. x / (y + epsilon)) ?d (std_temporal_variance b)"
  have lv: "length ?v = ncols ?T" by (rule length_var_axis0)
  have ld: "length ?d = ncols ?T" by (simp add: lv lm)
  have lq: "length ?q = ncols ?T" by (simp add: lv lm ls)
  have pos: "0 < ncols ?T" using shape(1) by (simp add: ndarray2_def)
  have d: "np_broadcast (\<lambda>x y. \<bar>x - y\<bar>) ?v (mean_temporal_variance b) = Inr ?d"
    by (simp add: np_broadcast_def lv lm)
  have r: "np_broadcast (\<lambda>x y. x / (y + epsilon)) ?d (std_temporal_variance b) = Inr ?q"
    by (simp add: np_broadcast_def lv lm ls)
  have "sum_list ?q = (\<Sum>i<length ?d. ?d ! i / (std_temporal_variance b ! i + epsilon))"
    by (rule sum_list_map2_nth) (simp add: lv lm ls)
  also have "\<dots> = (\<Sum>j<ncols ?T. \<bar>spec_dim_var ?T j - mean_temporal_variance b ! j\<bar>
                           / (std_temporal_variance b ! j + 1 / 10 ^ 8))"
    unfolding ld by (intro sum.cong) (simp_all add: lv lm epsilon_def var_axis0_nth)
  finally have "np_mean ?q
      = spec_z_variance ?T (mean_temporal_variance b) (std_temporal_variance b)"
    by (simp add: np_mean_def spec_z_variance_def lv lm ls)
  moreover have "?q \<noteq> []" using lq pos by auto
  ultimately have vz: "np_mean_nan ?q
      = Some (spec_z_variance ?T (mean_temporal_variance b) (std_temporal_variance b))"
    by (simp add: np_mean_nan_def)
  have mo: "motion_of ?T = Some (spec_motion_magnitude ?T)"
    using shape by (rule motion_of_spec)
  let ?mz = "spec_z_motion (spec_motion_magnitude ?T) (mean_motion_magnitude b)
               (std_motion_magnitude b)"
  let ?vz = "spec_z_variance ?T (mean_temporal_variance b) (std_temporal_variance b)"
  let ?sc = "spec_anomaly_score ?T b"
  let ?r = "\<lparr>ar_video_path = p, is_anomaly = (?sc > tau), anomaly_score = Some ?sc,
             motion_z_score = Some ?mz, variance_z_score = Some ?vz,
             motion_magnitude = Some (spec_motion_magnitude ?T),
             ar_threshold = tau,
             confidence = (if tau = 0 then 100 else min 100 (?sc / tau * 100))\<rparr>"
  have zm: "(m - mean_motion_magnitude b) / (std_motion_magnitude b + epsilon)
              = spec_z_motion m (mean_motion_magnitude b) (std_motion_magnitude b)" for m
    by (simp add: spec_z_motion_def epsilon_def)
  have eq: "detect_anomaly enc s p tau = (Inr ?r, s\<lparr>an_encoded := p # an_encoded s\<rparr>)"
    unfolding detect_anomaly_def
    by (simp add: b e d r mo vz zm Let_def spec_anomaly_score_def)
  show ?thesis
  proof (intro exI conjI)
    show "detect_anomaly enc s p tau = (Inr ?r, s\<lparr>an_encoded := p # an_encoded s\<rparr>)"
      by (rule eq)
    show "default_threshold = 2"
      by (simp add: default_threshold_def)
  qed simp_all
qed

theorem C9_anomaly_score_formula_witness:
  "baseline_features (anomaly_service_init\<lparr>baseline_features := Some walking_baseline\<rparr>)
     = Some walking_baseline \<and>
   walking_encoder ''clip.mp4'' = Inr clip_features \<and>
   ndarray2 (temporal_features clip_features) \<and>
   2 \<le> length (temporal_features clip_features) \<and>
   length (mean_temporal_variance walking_baseline) = ncols (temporal_features clip_features) \<and>
   length (std_temporal_variance walking_baseline) = ncols (temporal_features clip_features) \<and>
   spec_motion_magnitude (temporal_features clip_features) = 2 \<and>
   (\<exists>r. detect_anomaly walking_encoder
              (anomaly_service_init\<lparr>baseline_features := Some walking_baseline\<rparr>)
              ''clip.mp4'' 2
           = (Inr r, \<lparr>baseline_features = Some walking_baseline, an_encoded = [''clip.mp4'']\<rparr>) \<and>
      motion_magnitude r = Some 2 \<and>
      motion_z_score r = Some 0 \<and>
      anomaly_score r = Some (spec_anomaly_score (temporal_features clip_features) walking_baseline) \<and>
      (is_anomaly r \<longleftrightarrow>
         spec_anomaly_score (temporal_features clip_features) walking_baseline > 2))"
proof -
  let ?s = "anomaly_service_init\<lparr>baseline_features := Some walking_baseline\<rparr>"
  have h1: "baseline_features ?s = Some walking_baseline"
    by simp
  have h2: "walking_encoder ''clip.mp4'' = Inr clip_features"
    by (simp add: walking_encoder_def)
  have h3: "ndarray2 (temporal_features clip_features)"
    by (simp add: ndarray2_def ncols_def clip_features_def)
  have h4: "2 \<le> length (temporal_features clip_features)"
    by (simp add: clip_features_def)
  have h5: "length (mean_temporal_variance walking_baseline) = ncols (temporal_features clip_features)"
    by (simp add: ncols_def clip_features_def walking_baseline_def)
  have h6: "length (std_temporal_variance walking_baseline) = ncols (temporal_features clip_features)"
    by (simp add: ncols_def clip_features_def walking_baseline_def)
  have m: "spec_motion_magnitude (temporal_features clip_features) = 2"
    by (simp add: spec_motion_magnitude_def clip_features_def ncols_def
        lessThan_Suc numeral_2_eq_2)
  have z: "spec_z_motion 2 (mean_motion_magnitude walking_baseline)
             (std_motion_magnitude walking_baseline) = 0"
    by (simp add: spec_z_motion_def walking_baseline_def)
  have s: "?s\<lparr>an_encoded := ''clip.mp4'' # an_encoded ?s\<rparr>
             = \<lparr>baseline_features = Some walking_baseline, an_encoded = [''clip.mp4'']\<rparr>"
    by (simp add: anomaly_service_init_def)
  from C9_anomaly_score_formula
         [where s = ?s and b = walking_baseline and enc = walking_encoder and p = "''clip.mp4''"
            and f = clip_features and tau = 2, OF h1 h2 h3 h4 h5 h6]
  obtain r where
    "detect_anomaly walking_encoder ?s ''clip.mp4'' 2
       = (Inr r, ?s\<lparr>an_encoded := ''clip.mp4'' # an_encoded ?s\<rparr>)"
    "motion_magnitude r = Some (spec_motion_magnitude (temporal_features clip_features))"
    "motion_z_score r =
       Some (spec_z_motion (spec_motion_magnitude (temporal_features clip_features))
               (mean_motion_magnitude walking_baseline) (std_motion_magnitude walking_baseline))"
    "anomaly_score r = Some (spec_anomaly_score (temporal_features clip_features) walking_baseline)"
    "is_anomaly r \<longleftrightarrow> spec_anomaly_score (temporal_features clip_features) walking_baseline > 2"
    by blast
  then have "detect_anomaly walking_encoder ?s ''clip.mp4'' 2
           = (Inr r, \<lparr>baseline_features = Some walking_baseline, an_encoded = [''clip.mp4'']\<rparr>) \<and>
      motion_magnitude r = Some 2 \<and>
      motion_z_score r = Some 0 \<and>
      anomaly_score r = Some (spec_anomaly_score (temporal_features clip_features) walking_baseline) \<and>
      (is_anomaly r \<longleftrightarrow>
         spec_anomaly_score (temporal_features clip_features) walking_baseline > 2)"
    unfolding m z s by simp
  then show ?thesis
    using h1 h2 h3 h4 h5 h6 m by blast
qed

text \<open>
  Claim C10. While no baseline is stored, \<open>detect_anomaly\<close> and
  \<open>detect_temporal_anomalies\<close> raise \<open>ValueError\<close> and return the service object as it
  was: the baseline is unchanged and the encoder log has no new entry, so the encoder
  was not invoked.
\<close>

theorem C10_no_baseline_fails_before_encode:
  assumes "baseline_features s = None"
  shows "detect_anomaly enc s p thr = (Inl ValueError, s) \<and>
         detect_temporal_anomalies enc s p w = (Inl ValueError, s)"
  using assms by (simp add: detect_anomaly_def detect_temporal_anomalies_def)

theorem C10_no_baseline_fails_before_encode_witness:
  "baseline_features anomaly_service_init = None \<and>
   detect_anomaly walking_encoder anomaly_service_init ''clip.mp4'' 2
     = (Inl ValueError, anomaly_service_init) \<and>
   detect_temporal_anomalies walking_encoder anomaly_service_init ''clip.mp4'' 16
     = (Inl ValueError, anomaly_service_init)"
proof -
  have h: "baseline_features anomaly_service_init = None"
    by (simp add: anomaly_service_init_def)
  from C10_no_baseline_fails_before_encode
         [where s = anomaly_service_init and enc = walking_encoder and p = "''clip.mp4''"
            and thr = 2 and w = 16] h
  show ?thesis by simp
qed

section \<open>Properties of the job status query\<close>

text \<open>
  A job with a start time and at least one completed video has no status at all: the
  elapsed-time expression raises and the handler returns \<open>None\<close>.
\<close>

lemma get_indexing_job_started_completed:
  assumes "jobs jid = Some job" "started_at job = Some st" "0 < completed job"
  shows "get_indexing_job jobs jid = None"
  using assms by (simp add: get_indexing_job_def get_indexing_job_body_def Let_def)

text \<open>
  Claim C7, as amended. For every indexing job that has no start time or no completed
  video, the status is returned and its ETA is null, also when failed videos make
  \<open>done = completed + failed\<close> positive. (What is reported for a job with a start time
  and a completed video is not part of this statement.)
\<close>

theorem C7_eta_null_without_start_or_completed:
  assumes j: "jobs jid = Some job"
    and g: "started_at job = None \<or> completed job \<le> 0"
  shows "get_indexing_job jobs jid =
           Some \<lparr>jv_job_id = job_id job, jv_status = job_status job,
                  jv_total_videos = total_videos job, jv_completed = completed job,
                  jv_failed = failed job, progress_percentage = spec_progress job,
                  eta_seconds = None, jv_created_at = created_at job,
                  jv_started_at = started_at job, jv_completed_at = completed_at job,
                  jv_error_message = job_error_message job\<rparr>"
proof -
  from g have n: "\<not> (started_at job \<noteq> None \<and> completed job > 0)"
    by auto
  have b: "get_indexing_job_body jobs jid =
             Inr (Some \<lparr>jv_job_id = job_id job, jv_status = job_status job,
                  jv_total_videos = total_videos job, jv_completed = completed job,
                  jv_failed = failed job, progress_percentage = spec_progress job,
                  eta_seconds = None, jv_created_at = created_at job,
                  jv_started_at = started_at job, jv_completed_at = completed_at job,
                  jv_error_message = job_error_message job\<rparr>)"
    using j n by (simp add: get_indexing_job_body_def spec_progress_def Let_def algebra_simps)
  then show ?thesis
    by (simp add: get_indexing_job_def)
qed

theorem C7_eta_null_without_start_or_completed_witness:
  "[''job1'' \<mapsto> one_failed_job] ''job1'' = Some one_failed_job \<and>
   completed one_failed_job \<le> 0 \<and>
   map_option eta_seconds (get_indexing_job [''job1'' \<mapsto> one_failed_job] ''job1'') = Some None \<and>
   map_option progress_percentage (get_indexing_job [''job1'' \<mapsto> one_failed_job] ''job1'')
     = Some 50"
proof -
  have j: "[''job1'' \<mapsto> one_failed_job] ''job1'' = Some one_failed_job" by simp
  have c: "completed one_failed_job \<le> 0"
    by (simp add: one_failed_job_def)
  then have g: "started_at one_failed_job = None \<or> completed one_failed_job \<le> 0" ..
  have p: "spec_progress one_failed_job = 50"
    by (simp add: spec_progress_def one_failed_job_def)
  from C7_eta_null_without_start_or_completed
         [where jobs = "[''job1'' \<mapsto> one_failed_job]" and jid = "''job1''"
            and job = one_failed_job, OF j g] j c p
  show ?thesis by simp
qed

text \<open>
  The claim as stated fails: a job with no completed and one failed video has
  \<open>done = 1\<close>, yet its ETA is null.
\<close>

theorem C7_eta_null_with_done_positive:
  "completed one_failed_job + failed one_failed_job = 1 \<and>
   map_option eta_seconds (get_indexing_job [''job1'' \<mapsto> one_failed_job] ''job1'') = Some None"
  by (simp add: get_indexing_job_def get_indexing_job_body_def one_failed_job_def)

text \<open>
  A job with a start time, one completed and one failed video: no status is returned.
\<close>

lemma get_indexing_job_one_completed:
  "get_indexing_job [''job2'' \<mapsto> one_completed_job] ''job2'' = None"
  by (simp add: get_indexing_job_def get_indexing_job_body_def one_completed_job_def)

section \<open>Properties of re-ranking\<close>

lemma mean_var_axis0: "np_mean (var_axis0 m) = spec_mean_var m"
  by (simp add: np_mean_def var_axis0_def spec_mean_var_def sum_list_map_upt0 np_var_column)

lemma norm_mean_axis0: "np_norm (mean_axis0 m) = sqrt (\<Sum>j<ncols m. (spec_row_mean m j)\<^sup>2)"
  by (simp add: np_norm_def mean_axis0_def sum_list_map_upt0 np_mean_column o_def)

lemma map2_upt: "map2 f (map g [0..<n]) (map h [0..<n]) = map (\<lambda>j. f (g j) (h j)) [0..<n]"
  by (induction n) simp_all

lemma dot_mean_axis0:
  "ncols q = ncols c \<Longrightarrow>
     np_dot (mean_axis0 q) (mean_axis0 c)
       = Inr (\<Sum>j<ncols q. spec_row_mean q j * spec_row_mean c j)"
  by (simp add: np_dot_def mean_axis0_def map2_upt sum_list_map_upt0 np_mean_column)

text \<open>Evaluation of the array operations on a matrix of one row and one column.\<close>

lemma mean_axis0_single: "mean_axis0 [[x]] = [x]"
  by (simp add: mean_axis0_def ncols_def column_def np_mean_def)

lemma var_axis0_single: "var_axis0 [[x]] = [0]"
  by (simp add: var_axis0_def ncols_def column_def np_var_def np_mean_def)

lemma np_norm_single: "np_norm [x] = \<bar>x\<bar>"
  by (simp add: np_norm_def)

lemma euclidean_single: "euclidean [x] [y] = \<bar>x - y\<bar>"
  by (simp add: euclidean_def)

lemma ndarray2_single: "ndarray2 [[x]]"
  by (simp add: ndarray2_def ncols_def)

lemma euclidean_nonneg: "0 \<le> euclidean u v"
  by (auto simp: euclidean_def intro!: sum_list_nonneg)

lemma spec_row_mean_single: "spec_row_mean [[x]] 0 = x"
  by (simp add: spec_row_mean_def)

lemma spec_mean_var_single: "spec_mean_var [[x]] = 0"
  by (simp add: spec_mean_var_def spec_dim_var_def ncols_def spec_row_mean_single)

lemma spec_s_cos_single: "spec_s_cos [[x]] [[y]] = x * y / (\<bar>x\<bar> * \<bar>y\<bar>)"
  by (simp add: spec_s_cos_def ncols_def spec_row_mean_single)

lemma rerank_candidate_single:
  "similarity_score
     (rerank_candidate fastdtw_single_row (store_of vid [[y]]) [[x]] (candidate_of vid g)) =
   0.7 * (0.5 * (1 / (1 + \<bar>x - y\<bar>)) + 0.3 * (x * y / (\<bar>x\<bar> * \<bar>y\<bar> + epsilon)) + 0.2) + 0.3 * g"
  by (simp add: rerank_candidate_def store_of_def candidate_of_def compute_dtw_distance_def
        fastdtw_single_row_def dtw_similarity_of_def mean_axis0_single var_axis0_single
        np_norm_single euclidean_single np_dot_def np_mean_def Let_def ac_simps)

text \<open>
  Claim C3, as amended. For a candidate whose temporal matrix \<open>c\<close> is in the store
  (with as many columns as the query matrix \<open>q\<close>) and for which \<open>fastdtw\<close>, called with
  radius 10 and the Euclidean row distance, returns \<open>d\<close>, the score after re-ranking is
  \<open>0.7 \<times> s_temp + 0.3 \<times> s_global\<close> with
  \<open>s_temp = 0.5 \<times> s_dtw + 0.3 \<times> s_cos + 0.2 \<times> s_var\<close>, \<open>s_dtw = 1 / (1 + d)\<close>,
  \<open>s_var = 1 - |v_q - v_c| / (v_q + v_c + 1e-8)\<close>, and \<open>s_cos\<close> the dot product of the
  two row-means divided by the product of their norms plus \<open>1e-8\<close> (not the plain
  cosine).
\<close>

theorem C3_rerank_fusion_formula:
  assumes st: "store (video_id cand) = Some (Npy c)"
    and fd: "fdtw q c 10 euclidean = Inr d"
    and shape: "ndarray2 q" "ndarray2 c"
    and nc: "ncols q = ncols c"
  shows "similarity_score (rerank_candidate fdtw store q cand) =
           spec_final_score (spec_s_dtw d) (spec_s_cos_eps q c) (spec_s_var q c)
             (similarity_score cand)"
  unfolding rerank_candidate_def
  by (simp add: st fd nc dot_mean_axis0 norm_mean_axis0 mean_var_axis0 Let_def
        compute_dtw_distance_def dtw_similarity_of_def spec_final_score_def spec_s_dtw_def
        spec_s_cos_eps_def spec_s_var_def epsilon_def ac_simps)

theorem C3_rerank_fusion_formula_witness:
  "store_of ''a'' [[2]] (video_id (candidate_of ''a'' 1)) = Some (Npy [[2]]) \<and>
   fastdtw_single_row [[1]] [[2]] 10 euclidean = Inr 1 \<and>
   ndarray2 [[1]] \<and> ndarray2 [[2]] \<and> ncols [[1]] = ncols [[2]] \<and>
   similarity_score (rerank_candidate fastdtw_single_row (store_of ''a'' [[2]]) [[1]]
                       (candidate_of ''a'' 1)) =
     spec_final_score (spec_s_dtw 1) (spec_s_cos_eps [[1]] [[2]]) (spec_s_var [[1]] [[2]]) 1"
proof -
  have h1: "store_of ''a'' [[2]] (video_id (candidate_of ''a'' 1)) = Some (Npy [[2]])"
    by (simp add: store_of_def candidate_of_def)
  have h2: "fastdtw_single_row [[1]] [[2]] 10 euclidean = Inr 1"
    by (simp add: fastdtw_single_row_def euclidean_single)
  have h3: "ndarray2 [[1]]" and h4: "ndarray2 [[2]]"
    by (rule ndarray2_single)+
  have h5: "ncols [[1]] = ncols [[2]]"
    by (simp add: ncols_def)
  have g: "similarity_score (candidate_of ''a'' 1) = 1"
    by (simp add: candidate_of_def)
  from C3_rerank_fusion_formula
         [where store = "store_of ''a'' [[2]]" and cand = "candidate_of ''a'' 1"
            and c = "[[2]]" and q = "[[1]]" and fdtw = fastdtw_single_row and d = 1,
          OF h1 h2 h3 h4 h5]
       h1 h2 h3 h4 h5 g
  show ?thesis by simp
qed

text \<open>
  The claim as stated, with the plain cosine, fails: for the one-cell matrices
  \<open>[[1e-4]]\<close> as query and candidate the plain cosine is 1 and the stated formula gives
  1, while the code computes \<open>1e-8 / (1e-8 + 1e-8) = 1/2\<close> for the cosine term and the
  score \<open>0.895\<close>.
\<close>

theorem C3_plain_cosine_differs:
  "fastdtw_single_row [[1 / 10 ^ 4]] [[1 / 10 ^ 4]] 10 euclidean = Inr 0 \<and>
   similarity_score (rerank_candidate fastdtw_single_row (store_of ''a'' [[1 / 10 ^ 4]])
                       [[1 / 10 ^ 4]] (candidate_of ''a'' 1)) = 179 / 200 \<and>
   spec_final_score (spec_s_dtw 0) (spec_s_cos [[1 / 10 ^ 4]] [[1 / 10 ^ 4]])
     (spec_s_var [[1 / 10 ^ 4]] [[1 / 10 ^ 4]]) 1 = 1"
proof (intro conjI)
  show "fastdtw_single_row [[1 / 10 ^ 4]] [[1 / 10 ^ 4]] 10 euclidean = Inr 0"
    by (simp add: fastdtw_single_row_def euclidean_single)
  show "similarity_score (rerank_candidate fastdtw_single_row (store_of ''a'' [[1 / 10 ^ 4]])
                       [[1 / 10 ^ 4]] (candidate_of ''a'' 1)) = 179 / 200"
    by (simp add: rerank_candidate_single epsilon_def)
  show "spec_final_score (spec_s_dtw 0) (spec_s_cos [[1 / 10 ^ 4]] [[1 / 10 ^ 4]])
          (spec_s_var [[1 / 10 ^ 4]] [[1 / 10 ^ 4]]) 1 = 1"
    by (simp add: spec_final_score_def spec_s_dtw_def spec_s_var_def spec_s_cos_single
          spec_mean_var_single)
qed

subsection \<open>Range of the scores\<close>

lemma length_mean_axis0: "length (mean_axis0 m) = ncols m"
  by (simp add: mean_axis0_def)

lemma rerank_candidate_not_rescored:
  "\<not> rescored store q cand \<Longrightarrow> rerank_candidate fdtw store q cand = cand"
  by (auto simp: rescored_def rerank_candidate_def np_dot_def length_mean_axis0 Let_def
      split: option.splits npy_file.splits)

lemma rerank_candidate_rescored:
  assumes st: "store (video_id cand) = Some (Npy c)" and nc: "ncols q = ncols c"
  shows "similarity_score (rerank_candidate fdtw store q cand)
           = 0.7 * (0.5 * dtw_similarity_of (compute_dtw_distance fdtw q c)
                    + 0.3 * spec_s_cos_eps q c + 0.2 * spec_s_var q c)
             + 0.3 * similarity_score cand"
  unfolding rerank_candidate_def
  by (simp add: st nc dot_mean_axis0 norm_mean_axis0 mean_var_axis0 Let_def
        spec_s_cos_eps_def spec_s_var_def epsilon_def ac_simps)

lemma rescored_iff:
  "rescored store q cand \<longleftrightarrow> (\<exists>c. store (video_id cand) = Some (Npy c) \<and> ncols q = ncols c)"
  by (auto simp: rescored_def split: option.splits npy_file.splits)

text \<open>
  Claim C6, as amended. The vector-index score \<open>(1 + cosine) / 2\<close> clipped to
  \<open>[0, 1]\<close> lies in \<open>[0, 1]\<close>, and it is the score reported for a candidate that
  re-ranking does not re-score: one whose temporal file is missing or unreadable, or
  has another number of columns than the query. For a candidate that is re-scored,
  with the temporal matrix \<open>c\<close>, the reported score is the blend
  \<open>0.7 \<times> (0.5 \<times> s_dtw + 0.3 \<times> s_cos + 0.2 \<times> s_var) + 0.3 \<times> index score\<close> as
  computed, where \<open>s_dtw\<close> is \<open>1 / (1 + d)\<close> for the DTW distance \<open>d\<close> and 0 when
  \<open>fastdtw\<close> fails; the blend is not clipped.
\<close>

theorem C6_index_score_bounded_blend_unclipped:
  assumes g: "similarity_score cand = index_score cs"
  shows "0 \<le> index_score cs \<and> index_score cs \<le> 1 \<and>
         (\<not> rescored store q cand \<longrightarrow>
            rerank_candidate fdtw store q cand = cand \<and>
            similarity_score (rerank_candidate fdtw store q cand) = index_score cs) \<and>
         (rescored store q cand \<longrightarrow>
            (\<exists>c. store (video_id cand) = Some (Npy c) \<and>
                 similarity_score (rerank_candidate fdtw store q cand)
                   = 0.7 * (0.5 * dtw_similarity_of (compute_dtw_distance fdtw q c)
                            + 0.3 * spec_s_cos_eps q c + 0.2 * spec_s_var q c)
                     + 0.3 * index_score cs))"
proof (intro conjI impI)
  show "0 \<le> index_score cs" "index_score cs \<le> 1"
    by (simp_all add: index_score_def)
  show "rerank_candidate fdtw store q cand = cand" if "\<not> rescored store q cand"
    using that by (rule rerank_candidate_not_rescored)
  then show "similarity_score (rerank_candidate fdtw store q cand) = index_score cs"
    if "\<not> rescored store q cand"
    using that g by simp
  show "\<exists>c. store (video_id cand) = Some (Npy c) \<and>
             similarity_score (rerank_candidate fdtw store q cand)
               = 0.7 * (0.5 * dtw_similarity_of (compute_dtw_distance fdtw q c)
                        + 0.3 * spec_s_cos_eps q c + 0.2 * spec_s_var q c)
                 + 0.3 * index_score cs"
    if "rescored store q cand"
  proof -
    from that obtain c where c: "store (video_id cand) = Some (Npy c)" "ncols q = ncols c"
      unfolding rescored_iff by blast
    from rerank_candidate_rescored
           [where store = store and cand = cand and c = c and q = q and fdtw = fdtw] c g
    show ?thesis
      by simp
  qed
qed

theorem C6_index_score_bounded_blend_unclipped_witness:
  "similarity_score (candidate_of ''b'' (index_score (- 1))) = index_score (- 1) \<and>
   rescored (store_of ''b'' [[- 100]]) [[1]] (candidate_of ''b'' (index_score (- 1))) \<and>
   \<not> rescored (store_of ''a'' [[- 100]]) [[1]] (candidate_of ''b'' (index_score (- 1))) \<and>
   0 \<le> index_score (- 1) \<and> index_score (- 1) \<le> 1 \<and>
   similarity_score
     (rerank_candidate fastdtw_single_row (store_of ''a'' [[- 100]]) [[1]]
        (candidate_of ''b'' (index_score (- 1)))) = index_score (- 1) \<and>
   similarity_score
     (rerank_candidate fastdtw_single_row (store_of ''b'' [[- 100]]) [[1]]
        (candidate_of ''b'' (index_score (- 1))))
     = 0.7 * (0.5 * dtw_similarity_of (compute_dtw_distance fastdtw_single_row [[1]] [[- 100]])
              + 0.3 * spec_s_cos_eps [[1]] [[- 100]] + 0.2 * spec_s_var [[1]] [[- 100]])
       + 0.3 * index_score (- 1)"
proof -
  have h: "similarity_score (candidate_of ''b'' (index_score (- 1))) = index_score (- 1)"
    by (simp add: candidate_of_def)
  have r: "rescored (store_of ''b'' [[- 100]]) [[1]] (candidate_of ''b'' (index_score (- 1)))"
    by (simp add: rescored_def store_of_def candidate_of_def ncols_def)
  have n: "\<not> rescored (store_of ''a'' [[- 100]]) [[1]] (candidate_of ''b'' (index_score (- 1)))"
    by (simp add: rescored_def store_of_def candidate_of_def)
  have st: "store_of ''b'' [[- 100]] (video_id (candidate_of ''b'' (index_score (- 1)))) = Some (Npy c)
              \<Longrightarrow> c = [[- 100]]" for c
    by (simp add: store_of_def candidate_of_def)
  from C6_index_score_bounded_blend_unclipped
         [where cand = "candidate_of ''b'' (index_score (- 1))" and cs = "- 1"
            and store = "store_of ''b'' [[- 100]]" and q = "[[1]]"
            and fdtw = fastdtw_single_row, OF h] r
  obtain c where c: "store_of ''b'' [[- 100]] (video_id (candidate_of ''b'' (index_score (- 1))))
                       = Some (Npy c)"
    and sc: "similarity_score
               (rerank_candidate fastdtw_single_row (store_of ''b'' [[- 100]]) [[1]]
                  (candidate_of ''b'' (index_score (- 1))))
             = 0.7 * (0.5 * dtw_similarity_of (compute_dtw_distance fastdtw_single_row [[1]] c)
                      + 0.3 * spec_s_cos_eps [[1]] c + 0.2 * spec_s_var [[1]] c)
               + 0.3 * index_score (- 1)"
    by blast
  from st [OF c] sc have sc': "similarity_score
               (rerank_candidate fastdtw_single_row (store_of ''b'' [[- 100]]) [[1]]
                  (candidate_of ''b'' (index_score (- 1))))
             = 0.7 * (0.5 * dtw_similarity_of (compute_dtw_distance fastdtw_single_row [[1]] [[- 100]])
                      + 0.3 * spec_s_cos_eps [[1]] [[- 100]] + 0.2 * spec_s_var [[1]] [[- 100]])
               + 0.3 * index_score (- 1)"
    by simp
  from C6_index_score_bounded_blend_unclipped
         [where cand = "candidate_of ''b'' (index_score (- 1))" and cs = "- 1"
            and store = "store_of ''a'' [[- 100]]" and q = "[[1]]"
            and fdtw = fastdtw_single_row, OF h] n
  have ns: "similarity_score
     (rerank_candidate fastdtw_single_row (store_of ''a'' [[- 100]]) [[1]]
        (candidate_of ''b'' (index_score (- 1)))) = index_score (- 1)"
    and ib: "0 \<le> index_score (- 1)" "index_score (- 1) \<le> 1"
    by blast+
  from h r n ib ns sc' show ?thesis by blast
qed

text \<open>
  The claim as stated fails after re-ranking: a candidate with vector-index score 0
  whose one-row temporal matrix is \<open>[[-100]]\<close>, against the query matrix \<open>[[1]]\<close>, gets a
  negative score.
\<close>

theorem C6_reranked_score_negative:
  "index_score (- 1) = 0 \<and>
   fastdtw_single_row [[1]] [[- 100]] 10 euclidean = Inr 101 \<and>
   similarity_score
       (rerank_candidate fastdtw_single_row (store_of ''b'' [[- 100]]) [[1]]
          (candidate_of ''b'' (index_score (- 1)))) < 0"
proof (intro conjI)
  show i: "index_score (- 1) = 0"
    by (simp add: index_score_def)
  show "fastdtw_single_row [[1]] [[- 100]] 10 euclidean = Inr 101"
    by (simp add: fastdtw_single_row_def euclidean_single)
  show "similarity_score
       (rerank_candidate fastdtw_single_row (store_of ''b'' [[- 100]]) [[1]]
          (candidate_of ''b'' (index_score (- 1)))) < 0"
    by (simp add: rerank_candidate_single i epsilon_def)
qed

section \<open>Properties of the search request and the query cache\<close>

lemma py_take_zero: "py_take 0 xs = []"
  by (simp add: py_take_def)

lemma rerank_results_zero: "rerank_results fd st q cs 0 = []"
  by (simp add: rerank_results_def py_take_zero Let_def)

lemma encode_query_video_cached:
  assumes "cached env s p"
  shows "\<exists>f s'. encode_query_video env s p = (Inr f, s') \<and> encoder_calls s' = encoder_calls s"
  using assms
  by (auto simp: cached_def encode_query_video_def Let_def split: option.splits cache_file.splits)

lemma encode_query_video_miss:
  assumes "\<not> cached env s p" "encode_video env p = Inr f"
  shows "\<exists>s'. encode_query_video env s p = (Inr f, s') \<and> encoder_calls s' = p # encoder_calls s"
  using assms
  by (auto simp: cached_def encode_query_video_def Let_def split: option.splits cache_file.splits)

text \<open>
  Claim C8, as amended. A search with \<open>top_k = 0\<close> whose query encoding and vector
  search succeed returns an empty result list. It does not skip the encode step: the
  encoder is invoked once unless the query's features are in the memory or disk cache.
\<close>

theorem C8_top_k_zero_empty_result:
  assumes k: "top_k request = 0"
    and vs: "\<And>v. \<exists>cands. search_similar env v SEARCH_TOP_K (filters request) = Inr cands"
    and enc: "cached env s (query_video_url request) \<or>
              (\<exists>f. encode_video env (query_video_url request) = Inr f)"
  shows "\<exists>resp s'. search env s request = (Inr resp, s') \<and>
           results resp = [] \<and> total_results resp = 0 \<and>
           encoder_calls s' =
             (if cached env s (query_video_url request) then encoder_calls s
              else query_video_url request # encoder_calls s)"
proof -
  let ?p = "query_video_url request"
  have "\<exists>f s'. encode_query_video env s ?p = (Inr f, s') \<and>
          encoder_calls s' = (if cached env s ?p then encoder_calls s else ?p # encoder_calls s)"
  proof (cases "cached env s ?p")
    case True
    with encode_query_video_cached [OF True] show ?thesis by simp
  next
    case False
    with enc obtain f where "encode_video env ?p = Inr f" by blast
    from encode_query_video_miss [OF False this] False show ?thesis by auto
  qed
  then obtain f s' where e: "encode_query_video env s ?p = (Inr f, s')"
    and c: "encoder_calls s' = (if cached env s ?p then encoder_calls s else ?p # encoder_calls s)"
    by blast
  from vs obtain cands where
    v: "search_similar env (global_features f) SEARCH_TOP_K (filters request) = Inr cands"
    by blast
  show ?thesis
    unfolding search_def
    by (simp add: e v k c Let_def py_take_zero rerank_results_zero)
qed


theorem C8_top_k_zero_empty_result_witness:
  "top_k (demo_request 0) = 0 \<and>
   encode_video demo_env (query_video_url (demo_request 0)) = Inr clip_features \<and>
   \<not> cached demo_env empty_search_state (query_video_url (demo_request 0)) \<and>
   (\<exists>resp s'. search demo_env empty_search_state (demo_request 0) = (Inr resp, s') \<and>
      results resp = [] \<and> total_results resp = 0 \<and>
      encoder_calls s' = query_video_url (demo_request 0) # encoder_calls empty_search_state)"
proof -
  have h1: "top_k (demo_request 0) = 0"
    by (simp add: demo_request_def)
  have h2: "\<And>v. \<exists>cands. search_similar demo_env v SEARCH_TOP_K (filters (demo_request 0)) = Inr cands"
    by (simp add: demo_env_def)
  have e: "encode_video demo_env (query_video_url (demo_request 0)) = Inr clip_features"
    by (simp add: demo_env_def demo_request_def walking_encoder_def)
  then have h3: "cached demo_env empty_search_state (query_video_url (demo_request 0)) \<or>
                 (\<exists>f. encode_video demo_env (query_video_url (demo_request 0)) = Inr f)"
    by blast
  have n: "\<not> cached demo_env empty_search_state (query_video_url (demo_request 0))"
    by (simp add: cached_def empty_search_state_def)
  from C8_top_k_zero_empty_result
         [where request = "demo_request 0" and env = demo_env and s = empty_search_state,
          OF h1 h2 h3] h1 e n
  show ?thesis by simp
qed

text \<open>
  The claim as stated fails: on empty caches a search with \<open>top_k = 0\<close> hands the query
  to the encoder.
\<close>

theorem C8_top_k_zero_invokes_encoder:
  "top_k (demo_request 0) = 0 \<and>
   encoder_calls empty_search_state = [] \<and>
   encoder_calls (snd (search demo_env empty_search_state (demo_request 0))) = [''clip.mp4'']"
  by (simp add: search_def encode_query_video_def demo_request_def demo_env_def
        empty_search_state_def file_hash_of_def cache_key_of_def walking_encoder_def
        Let_def py_take_zero)


subsection \<open>Concurrent queries\<close>

lemmas step_defs = run_schedule_def start_sys_def thread_step_def set_pc_def

text \<open>
  Run alone, a thread of the model computes what \<open>encode_query_video\<close> computes: eight
  steps take it from its start to its end, with the same shared state and result, and
  the lock is free again.
\<close>

lemma encode_query_video_as_steps:
  "shared (run_schedule env (start_sys s [p]) [0, 0, 0, 0, 0, 0, 0, 0])
     = snd (encode_query_video env s p) \<and>
   pcs (run_schedule env (start_sys s [p]) [0, 0, 0, 0, 0, 0, 0, 0]) =
     [case fst (encode_query_video env s p) of Inr f \<Rightarrow> Done f | Inl e \<Rightarrow> Failed e] \<and>
   lock (run_schedule env (start_sys s [p]) [0, 0, 0, 0, 0, 0, 0, 0]) = None"
proof (cases "query_cache s (cache_key_of (file_hash_of env p))")
  case (Some f)
  then show ?thesis
    by (simp add: step_defs encode_query_video_def Let_def)
next
  case None
  show ?thesis
  proof (cases "disk_cache s (file_hash_of env p)")
    case dn: None
    show ?thesis
      using None dn
      by (cases "encode_video env p"; cases "disk_writable env")
         (simp_all add: step_defs encode_query_video_def Let_def)
  next
    case (Some cf)
    show ?thesis
    proof (cases cf)
      case (CacheFile f)
      with None Some show ?thesis
        by (simp add: step_defs encode_query_video_def Let_def)
    next
      case CorruptFile
      with None Some show ?thesis
        by (cases "encode_video env p"; cases "disk_writable env")
           (simp_all add: step_defs encode_query_video_def Let_def)
    qed
  qed
qed

lemma length_pcs_step: "length (pcs (thread_step env s t)) = length (pcs s)"
  by (simp add: thread_step_def set_pc_def Let_def
           split: pc.splits option.splits cache_file.splits sum.splits)

lemma length_pcs_run: "length (pcs (run_schedule env s sched)) = length (pcs s)"
  unfolding run_schedule_def
  by (induction sched arbitrary: s) (simp_all add: length_pcs_step)

lemma thread_inv_step:
  assumes "thread_inv s"
  shows "thread_inv (thread_step env s t)"
proof (cases "t < length (pcs s)")
  case False
  with assms show ?thesis by (simp add: thread_step_def)
next
  case True
  have notin: "t \<notin> set (encoded_by s)" if "before_encode (pcs s ! t)"
    using assms that by (auto simp: thread_inv_def list_all_iff)
  show ?thesis
  proof (cases "pcs s ! t")
    case (Encode v h)
    with notin have "t \<notin> set (encoded_by s)" by (simp add: before_encode_def)
    then show ?thesis
      using assms True Encode
      by (auto simp: thread_inv_def thread_step_def set_pc_def Let_def list_all_iff
            before_encode_def nth_list_update split: sum.splits)
  next
    case (Start v)
    with notin have "t \<notin> set (encoded_by s)" by (simp add: before_encode_def)
    then show ?thesis
      using assms True Start
      by (auto simp: thread_inv_def thread_step_def set_pc_def list_all_iff nth_list_update)
  next
    case (MemCheck v h)
    with notin have "t \<notin> set (encoded_by s)" by (simp add: before_encode_def)
    then show ?thesis
      using assms True MemCheck
      by (auto simp: thread_inv_def thread_step_def set_pc_def list_all_iff nth_list_update
            split: option.splits)
  next
    case (MemCheckLocked v h)
    with notin have "t \<notin> set (encoded_by s)" by (simp add: before_encode_def)
    then show ?thesis
      using assms True MemCheckLocked
      by (auto simp: thread_inv_def thread_step_def set_pc_def list_all_iff nth_list_update
            split: option.splits)
  next
    case (DiskCheck v h)
    with notin have "t \<notin> set (encoded_by s)" by (simp add: before_encode_def)
    then show ?thesis
      using assms True DiskCheck
      by (auto simp: thread_inv_def thread_step_def set_pc_def list_all_iff nth_list_update
            split: option.splits cache_file.splits)
  next
    case (DiskSave v h f)
    show ?thesis
      using assms True DiskSave
      by (auto simp: thread_inv_def thread_step_def set_pc_def list_all_iff nth_list_update
            before_encode_def)
  next
    case (MemStore h f)
    show ?thesis
      using assms True MemStore
      by (auto simp: thread_inv_def thread_step_def set_pc_def list_all_iff nth_list_update
            before_encode_def split: option.splits)
  next
    case (MemStoreLocked h f)
    show ?thesis
      using assms True MemStoreLocked
      by (auto simp: thread_inv_def thread_step_def set_pc_def list_all_iff nth_list_update
            before_encode_def)
  next
    case (Done f)
    with assms True show ?thesis by (simp add: thread_step_def)
  next
    case (Failed e)
    with assms True show ?thesis by (simp add: thread_step_def)
  qed
qed

lemma thread_inv_run: "thread_inv s \<Longrightarrow> thread_inv (run_schedule env s sched)"
  unfolding run_schedule_def
  by (induction sched arbitrary: s) (simp_all add: thread_inv_step)

lemma thread_inv_start: "thread_inv (start_sys init paths)"
  by (simp add: thread_inv_def start_sys_def)

text \<open>The lock invariant, in the form in which it is used.\<close>

lemma lock_inv_iff:
  "lock_inv s \<longleftrightarrow>
     (\<forall>u<length (pcs s). holds_lock (pcs s ! u) = (lock s = Some u)) \<and>
     (\<forall>u. lock s = Some u \<longrightarrow> u < length (pcs s))"
  by (auto simp: lock_inv_def list_all_iff split: option.splits)

lemma lock_inv_start: "lock_inv (start_sys init paths)"
  by (simp add: lock_inv_iff start_sys_def holds_lock_def)

text \<open>A step that changes the program counter of its thread only, between two places
  outside the \<open>with\<close> blocks, keeps the lock invariant.\<close>

lemma lock_inv_move:
  assumes inv: "lock_inv s" and t: "t < length (pcs s)"
    and old: "\<not> holds_lock (pcs s ! t)" and new: "\<not> holds_lock p"
    and l: "lock s' = lock s" and p: "pcs s' = (pcs s)[t := p]"
  shows "lock_inv s'"
proof -
  from inv t old have "lock s \<noteq> Some t"
    by (auto simp: lock_inv_iff)
  with inv t new show ?thesis
    unfolding lock_inv_iff l p by (auto simp: nth_list_update)
qed

lemma lock_inv_acquire:
  assumes inv: "lock_inv s" and t: "t < length (pcs s)"
    and free: "lock s = None" and new: "holds_lock p"
    and l: "lock s' = Some t" and p: "pcs s' = (pcs s)[t := p]"
  shows "lock_inv s'"
  using inv t free new unfolding lock_inv_iff l p by (auto simp: nth_list_update)

lemma lock_inv_release:
  assumes inv: "lock_inv s" and t: "t < length (pcs s)"
    and old: "holds_lock (pcs s ! t)" and new: "\<not> holds_lock p"
    and l: "lock s' = None" and p: "pcs s' = (pcs s)[t := p]"
  shows "lock_inv s'"
proof -
  from inv t old have "lock s = Some t"
    by (auto simp: lock_inv_iff)
  with inv t new show ?thesis
    unfolding lock_inv_iff l p by (auto simp: nth_list_update)
qed

lemma lock_inv_step:
  assumes inv: "lock_inv s"
  shows "lock_inv (thread_step env s t)"
proof (cases "t < length (pcs s)")
  case False
  with assms show ?thesis by (simp add: thread_step_def)
next
  case True
  show ?thesis
  proof (cases "pcs s ! t")
    case (Start v)
    show ?thesis
      by (rule lock_inv_move [OF inv True, where p = "MemCheck v (file_hash_of env v)"])
         (simp_all add: Start True thread_step_def set_pc_def holds_lock_def)
  next
    case (MemCheck v h)
    show ?thesis
    proof (cases "lock s")
      case None
      show ?thesis
        by (rule lock_inv_acquire [OF inv True None, where p = "MemCheckLocked v h"])
           (simp_all add: MemCheck True None thread_step_def set_pc_def holds_lock_def)
    next
      case (Some u)
      with inv MemCheck True show ?thesis by (simp add: thread_step_def)
    qed
  next
    case (MemCheckLocked v h)
    show ?thesis
    proof (cases "query_cache (shared s) (cache_key_of h)")
      case None
      show ?thesis
        by (rule lock_inv_release [OF inv True, where p = "DiskCheck v h"])
           (simp_all add: MemCheckLocked True None thread_step_def set_pc_def holds_lock_def)
    next
      case (Some f)
      show ?thesis
        by (rule lock_inv_release [OF inv True, where p = "Done f"])
           (simp_all add: MemCheckLocked True Some thread_step_def set_pc_def holds_lock_def)
    qed
  next
    case (DiskCheck v h)
    show ?thesis
    proof (cases "disk_cache (shared s) h")
      case None
      show ?thesis
        by (rule lock_inv_move [OF inv True, where p = "Encode v h"])
           (simp_all add: DiskCheck True None thread_step_def set_pc_def holds_lock_def)
    next
      case (Some cf)
      show ?thesis
      proof (cases cf)
        case (CacheFile f)
        show ?thesis
          by (rule lock_inv_move [OF inv True, where p = "MemStore h f"])
             (simp_all add: DiskCheck True Some CacheFile thread_step_def set_pc_def
                holds_lock_def)
      next
        case CorruptFile
        show ?thesis
          by (rule lock_inv_move [OF inv True, where p = "Encode v h"])
             (simp_all add: DiskCheck True Some CorruptFile thread_step_def set_pc_def
                holds_lock_def)
      qed
    qed
  next
    case (Encode v h)
    show ?thesis
    proof (cases "encode_video env v")
      case (Inl e)
      show ?thesis
        by (rule lock_inv_move [OF inv True, where p = "Failed e"])
           (simp_all add: Encode True Inl thread_step_def set_pc_def holds_lock_def Let_def)
    next
      case (Inr f)
      show ?thesis
        by (rule lock_inv_move [OF inv True, where p = "DiskSave v h f"])
           (simp_all add: Encode True Inr thread_step_def set_pc_def holds_lock_def Let_def)
    qed
  next
    case (DiskSave v h f)
    show ?thesis
      by (rule lock_inv_move [OF inv True, where p = "MemStore h f"])
         (simp_all add: DiskSave True thread_step_def set_pc_def holds_lock_def)
  next
    case (MemStore h f)
    show ?thesis
    proof (cases "lock s")
      case None
      show ?thesis
        by (rule lock_inv_acquire [OF inv True None, where p = "MemStoreLocked h f"])
           (simp_all add: MemStore True None thread_step_def set_pc_def holds_lock_def)
    next
      case (Some u)
      with inv MemStore True show ?thesis by (simp add: thread_step_def)
    qed
  next
    case (MemStoreLocked h f)
    show ?thesis
      by (rule lock_inv_release [OF inv True, where p = "Done f"])
         (simp_all add: MemStoreLocked True thread_step_def set_pc_def holds_lock_def)
  next
    case (Done f)
    with inv True show ?thesis by (simp add: thread_step_def)
  next
    case (Failed e)
    with inv True show ?thesis by (simp add: thread_step_def)
  qed
qed

lemma lock_inv_run: "lock_inv s \<Longrightarrow> lock_inv (run_schedule env s sched)"
  unfolding run_schedule_def
  by (induction sched arbitrary: s) (simp_all add: lock_inv_step)

lemma calls_step:
  "length (encoder_calls (shared s)) = n + length (encoded_by s) \<Longrightarrow>
   length (encoder_calls (shared (thread_step env s t)))
     = n + length (encoded_by (thread_step env s t))"
  by (auto simp: thread_step_def set_pc_def Let_def
        split: pc.splits option.splits cache_file.splits sum.splits)

lemma calls_run:
  "length (encoder_calls (shared s)) = n + length (encoded_by s) \<Longrightarrow>
   length (encoder_calls (shared (run_schedule env s sched)))
     = n + length (encoded_by (run_schedule env s sched))"
  unfolding run_schedule_def
  by (induction sched arbitrary: s) (simp_all add: calls_step)

lemma mem_served_step:
  assumes "mem_served env s t"
  shows "mem_served env (thread_step env s u) t"
proof (cases "u < length (pcs s)")
  case False
  with assms show ?thesis by (simp add: thread_step_def)
next
  case u: True
  show ?thesis
  proof (cases "u = t")
    case True
    with assms u show ?thesis
      by (auto simp: mem_served_def served_from_memory_def thread_step_def set_pc_def
            split: pc.splits option.splits)
  next
    case False
    with assms u show ?thesis
      by (auto simp: mem_served_def served_from_memory_def thread_step_def set_pc_def Let_def
            nth_list_update
            split: pc.splits option.splits cache_file.splits sum.splits)
  qed
qed

lemma mem_served_run: "mem_served env s t \<Longrightarrow> mem_served env (run_schedule env s sched) t"
  unfolding run_schedule_def
  by (induction sched arbitrary: s) (simp_all add: mem_served_step)

lemma distinct_bounded_length:
  assumes "distinct xs" "list_all (\<lambda>t. t < n) xs"
  shows "length xs \<le> (n::nat)"
proof -
  have "set xs \<subseteq> {..<n}" using assms(2) by (auto simp: list_all_iff)
  then have "card (set xs) \<le> card {..<n}" by (intro card_mono) simp_all
  with assms(1) show ?thesis by (simp add: distinct_card)
qed

text \<open>
  A thread that is not about to acquire the lock is never blocked; one that is about to
  acquire it is blocked exactly while the lock is held.
\<close>

lemma step_moves:
  assumes "t < length (pcs s)" "\<not> finished (pcs s ! t)"
    and "wants_lock (pcs s ! t) \<longrightarrow> lock s = None"
  shows "pcs (thread_step env s t) ! t \<noteq> pcs s ! t"
  using assms
  by (auto simp: thread_step_def set_pc_def finished_def wants_lock_def Let_def
        split: pc.splits option.splits cache_file.splits sum.splits)

lemma step_blocked:
  assumes "t < length (pcs s)" "wants_lock (pcs s ! t)" "lock s = Some u"
  shows "thread_step env s t = s"
  using assms
  by (auto simp: thread_step_def wants_lock_def split: pc.splits)

text \<open>The holder of the lock releases it with its next step.\<close>

lemma holder_releases:
  assumes "u < length (pcs s)" "holds_lock (pcs s ! u)"
  shows "lock (thread_step env s u) = None"
  using assms
  by (auto simp: thread_step_def set_pc_def holds_lock_def split: pc.splits option.splits)

text \<open>
  Claim C4, as amended. Whatever the schedule of any number of concurrent queries:
  each query invokes the encoder at most once, so the encoder is invoked at most as
  often as there are queries; a query for a file whose features are in the memory cache
  when the queries start never invokes it. The lock is held by a thread exactly while
  that thread is inside one of the \<open>with\<close> blocks, never during the call of the
  encoder. A thread that has not finished can take its next step unless it is about to
  enter a \<open>with\<close> block while another thread is inside one; that thread leaves the
  block, releasing the lock, with its next step. So queries wait for one another only
  for the accesses to the dictionary and otherwise proceed in parallel, whether or not
  their fingerprints are the same; queries for the same fingerprint that overlap may
  each invoke the encoder.
\<close>

theorem C4_encoder_once_per_query:
  fixes env init paths sched
  defines "s \<equiv> run_schedule env (start_sys init paths) sched"
  shows "distinct (encoded_by s) \<and>
         length (encoded_by s) \<le> length paths \<and>
         length (encoder_calls (shared s)) = length (encoder_calls init) + length (encoded_by s) \<and>
         (\<forall>t<length paths.
            query_cache init (cache_key_of (file_hash_of env (paths ! t))) \<noteq> None
              \<longrightarrow> t \<notin> set (encoded_by s)) \<and>
         (\<forall>t<length paths. (lock s = Some t) = holds_lock (pcs s ! t)) \<and>
         (\<forall>t<length paths. at_encode (pcs s ! t) \<longrightarrow> lock s \<noteq> Some t) \<and>
         (\<forall>t<length paths. \<not> finished (pcs s ! t) \<longrightarrow>
            pcs (thread_step env s t) ! t \<noteq> pcs s ! t \<or>
            (wants_lock (pcs s ! t) \<and>
             (\<exists>u<length paths. u \<noteq> t \<and> lock s = Some u \<and> holds_lock (pcs s ! u) \<and>
                  thread_step env s t = s \<and> lock (thread_step env s u) = None)))"
proof -
  have inv: "thread_inv s"
    unfolding s_def by (rule thread_inv_run) (rule thread_inv_start)
  have linv: "lock_inv s"
    unfolding s_def by (rule lock_inv_run) (rule lock_inv_start)
  have len: "length (pcs s) = length paths"
    unfolding s_def by (simp add: length_pcs_run start_sys_def)
  have d: "distinct (encoded_by s)"
    using inv by (simp add: thread_inv_def)
  have "list_all (\<lambda>t. t < length paths) (encoded_by s)"
    using inv len by (auto simp: thread_inv_def list_all_iff)
  with d have b: "length (encoded_by s) \<le> length paths"
    by (rule distinct_bounded_length)
  have c: "length (encoder_calls (shared s)) = length (encoder_calls init) + length (encoded_by s)"
    unfolding s_def by (rule calls_run) (simp add: start_sys_def)
  have m: "t \<notin> set (encoded_by s)"
    if "t < length paths" "query_cache init (cache_key_of (file_hash_of env (paths ! t))) \<noteq> None"
    for t
  proof -
    have "mem_served env (start_sys init paths) t"
      using that by (simp add: mem_served_def served_from_memory_def start_sys_def)
    then have "mem_served env s t"
      unfolding s_def by (rule mem_served_run)
    then show ?thesis by (simp add: mem_served_def)
  qed
  have h: "(lock s = Some t) = holds_lock (pcs s ! t)" if "t < length paths" for t
    using linv that len by (auto simp: lock_inv_iff)
  have e: "lock s \<noteq> Some t" if "t < length paths" "at_encode (pcs s ! t)" for t
  proof -
    from that(2) have "\<not> holds_lock (pcs s ! t)"
      by (auto simp: at_encode_def holds_lock_def split: pc.splits)
    with h [OF that(1)] show ?thesis by simp
  qed
  have p: "pcs (thread_step env s t) ! t \<noteq> pcs s ! t \<or>
            (wants_lock (pcs s ! t) \<and>
             (\<exists>u<length paths. u \<noteq> t \<and> lock s = Some u \<and> holds_lock (pcs s ! u) \<and>
                  thread_step env s t = s \<and> lock (thread_step env s u) = None))"
    if t: "t < length paths" and nf: "\<not> finished (pcs s ! t)" for t
  proof (cases "wants_lock (pcs s ! t) \<and> lock s \<noteq> None")
    case False
    then have "wants_lock (pcs s ! t) \<longrightarrow> lock s = None" by blast
    with t nf len have "pcs (thread_step env s t) ! t \<noteq> pcs s ! t"
      by (intro step_moves) simp_all
    then show ?thesis ..
  next
    case True
    then obtain u where w: "wants_lock (pcs s ! t)" and u: "lock s = Some u"
      by auto
    from linv u have ul: "u < length paths"
      using len by (auto simp: lock_inv_iff)
    with h [OF ul] u have hu: "holds_lock (pcs s ! u)" by simp
    from w have "\<not> holds_lock (pcs s ! t)"
      by (auto simp: wants_lock_def holds_lock_def split: pc.splits)
    with hu have ne: "u \<noteq> t" by auto
    from t len w u have bl: "thread_step env s t = s"
      by (intro step_blocked [where u = u]) simp_all
    from ul len hu have rel: "lock (thread_step env s u) = None"
      by (intro holder_releases) simp_all
    from w ul ne u hu bl rel show ?thesis by blast
  qed
  from d b c m h e p show ?thesis by blast
qed

theorem C4_encoder_once_per_query_witness:
  "query_cache warm_state (cache_key_of (file_hash_of demo_env ''clip.mp4'')) \<noteq> None \<and>
   0 \<notin> set (encoded_by (run_schedule demo_env
                 (start_sys warm_state [''clip.mp4'', ''clip.mp4'']) [0, 0, 1])) \<and>
   lock (run_schedule demo_env (start_sys warm_state [''clip.mp4'', ''clip.mp4'']) [0, 0, 1])
     = Some 0 \<and>
   holds_lock (pcs (run_schedule demo_env
                 (start_sys warm_state [''clip.mp4'', ''clip.mp4'']) [0, 0, 1]) ! 0) \<and>
   \<not> finished (pcs (run_schedule demo_env
                 (start_sys warm_state [''clip.mp4'', ''clip.mp4'']) [0, 0, 1]) ! 1) \<and>
   wants_lock (pcs (run_schedule demo_env
                 (start_sys warm_state [''clip.mp4'', ''clip.mp4'']) [0, 0, 1]) ! 1) \<and>
   pcs (thread_step demo_env
          (run_schedule demo_env (start_sys warm_state [''clip.mp4'', ''clip.mp4'']) [0, 0, 1]) 1) ! 1
     = pcs (run_schedule demo_env (start_sys warm_state [''clip.mp4'', ''clip.mp4'']) [0, 0, 1]) ! 1 \<and>
   lock (thread_step demo_env
          (run_schedule demo_env (start_sys warm_state [''clip.mp4'', ''clip.mp4'']) [0, 0, 1]) 0)
     = None \<and>
   \<not> finished (pcs (run_schedule demo_env
                 (start_sys warm_state [''clip.mp4'', ''clip.mp4'']) [0, 0, 1]) ! 0) \<and>
   pcs (thread_step demo_env
          (run_schedule demo_env (start_sys warm_state [''clip.mp4'', ''clip.mp4'']) [0, 0, 1]) 0) ! 0
     \<noteq> pcs (run_schedule demo_env (start_sys warm_state [''clip.mp4'', ''clip.mp4'']) [0, 0, 1]) ! 0"
proof -
  let ?paths = "[''clip.mp4'', ''clip.mp4'']"
  let ?s = "run_schedule demo_env (start_sys warm_state ?paths) [0, 0, 1]"
  have h1: "query_cache warm_state (cache_key_of (file_hash_of demo_env (?paths ! 0))) \<noteq> None"
    by (simp add: warm_state_def)
  have pc0: "holds_lock (pcs ?s ! 0)" and nf0: "\<not> finished (pcs ?s ! 0)"
    by (simp_all add: step_defs holds_lock_def finished_def)
  have pc1: "wants_lock (pcs ?s ! 1)" and nf1: "\<not> finished (pcs ?s ! 1)"
    by (simp_all add: step_defs wants_lock_def finished_def)
  have nw0: "\<not> wants_lock (pcs ?s ! 0)"
    by (simp add: step_defs wants_lock_def)
  have l0: "(0::nat) < length ?paths" and l1: "(1::nat) < length ?paths"
    by simp_all
  note inst = C4_encoder_once_per_query
               [where env = demo_env and init = warm_state and paths = ?paths
                  and sched = "[0, 0, 1]"]
  from inst l0 h1 have a: "0 \<notin> set (encoded_by ?s)" by blast
  from inst l0 pc0 have b: "lock ?s = Some 0" by blast
  from inst l0 nf0 nw0 have c: "pcs (thread_step demo_env ?s 0) ! 0 \<noteq> pcs ?s ! 0" by blast
  from inst l1 nf1
  have "pcs (thread_step demo_env ?s 1) ! 1 \<noteq> pcs ?s ! 1 \<or>
        (\<exists>u<length ?paths. u \<noteq> 1 \<and> lock ?s = Some u \<and>
             thread_step demo_env ?s 1 = ?s \<and> lock (thread_step demo_env ?s u) = None)"
    by blast
  moreover have "pcs (thread_step demo_env ?s 1) ! 1 = pcs ?s ! 1"
    by (simp add: step_defs)
  ultimately obtain u where "lock ?s = Some u" "lock (thread_step demo_env ?s u) = None"
    by blast
  with b have d: "lock (thread_step demo_env ?s 0) = None" by simp
  have e: "pcs (thread_step demo_env ?s 1) ! 1 = pcs ?s ! 1"
    by (simp add: step_defs)
  from h1 a b pc0 nf1 pc1 e d nf0 c show ?thesis by simp
qed

text \<open>
  The claim as stated fails: two concurrent queries for the same file both find the
  memory cache and the disk cache empty before either has stored its result, and the
  encoder is invoked twice for the one fingerprint. Both queries then finish.
\<close>

theorem C4_two_concurrent_queries_encode_twice:
  "file_hash_of demo_env ''clip.mp4'' = ''hbytes'' \<and>
   encoder_calls (shared (run_schedule demo_env
       (start_sys empty_search_state [''clip.mp4'', ''clip.mp4''])
       [0, 0, 0, 1, 1, 1, 0, 1, 0, 1, 0, 1, 0, 0, 1, 1]))
     = [''clip.mp4'', ''clip.mp4''] \<and>
   encoded_by (run_schedule demo_env
       (start_sys empty_search_state [''clip.mp4'', ''clip.mp4''])
       [0, 0, 0, 1, 1, 1, 0, 1, 0, 1, 0, 1, 0, 0, 1, 1])
     = [1, 0] \<and>
   pcs (run_schedule demo_env
       (start_sys empty_search_state [''clip.mp4'', ''clip.mp4''])
       [0, 0, 0, 1, 1, 1, 0, 1, 0, 1, 0, 1, 0, 0, 1, 1])
     = [Done clip_features, Done clip_features]"
  by (simp add: step_defs demo_env_def empty_search_state_def file_hash_of_def cache_key_of_def
        walking_encoder_def Let_def)

section \<open>Properties of the indexing task\<close>

lemmas demo_defs =
  file_present_def file_missing_def empty_world_def indexed_world_def

lemma update_indexing_status_frame:
  "vector_index (update_indexing_status env w vid st err) = vector_index w \<and>
   temporal_files (update_indexing_status env w vid st err) = temporal_files w \<and>
   oplog (update_indexing_status env w vid st err) = oplog w @ [StatusUpdate vid st]"
  by (simp add: update_indexing_status_def log_op_def Let_def)

lemma update_indexing_status_failed:
  "status_commit_ok env \<Longrightarrow>
     status_of (update_indexing_status env w vid ''failed'' err) vid = Some ''failed''"
  by (simp add: update_indexing_status_def status_of_def log_op_def Let_def split: option.splits)

lemma update_indexing_status_rolled_back:
  "\<not> status_commit_ok env \<Longrightarrow> videos (update_indexing_status env w vid st err) = videos w"
  by (simp add: update_indexing_status_def log_op_def Let_def)

text \<open>
  The \<open>try\<close> block always ends with an exception: \<open>ValueError\<close> for a local path that
  does not exist and \<open>NameError\<close> otherwise; all it has done by then is the first status
  update.
\<close>

lemma index_video_body_raises:
  "index_video_body env w vid url
     = (Inl (body_exn env url), update_indexing_status env w vid ''processing'' None)"
  by (simp add: index_video_body_def body_exn_def download_video_def Let_def)

lemma body_exn_cases:
  "body_exn env url = ValueError \<or> body_exn env url = NameError"
  by (simp add: body_exn_def)

text \<open>One attempt, evaluated: the handler of line 119 runs in every attempt.\<close>

lemma index_video_task_eval:
  "index_video_task env w vid url k
     = (celery_retry k (body_exn env url) (60 * 2 ^ k),
        update_indexing_status env (update_indexing_status env w vid ''processing'' None)
          vid ''failed'' (Some (str_exn (body_exn env url))))"
  using body_exn_cases [of env url]
  by (auto simp: index_video_task_def index_video_body_raises)

lemma celery_retry_outcome:
  "celery_retry k e c = (if k < 3 then Retry c else Raised e)"
  by (simp add: celery_retry_def max_retries_def)

text \<open>
  Claim C2, which the code does not meet. On every input the attempt ends in the
  handler of line 119 and never returns, and it makes no call of the commit: neither
  \<open>store_temporal_features\<close> nor \<open>vector_db.insert_video\<close> nor \<open>update_video_metadata\<close>
  is reached, the only store calls being the two status updates, and the vector index
  and the temporal store are as before. For the local file \<open>/data/a.mp4\<close>, which
  exists, and empty stores the first attempt is rescheduled after 60 seconds and leaves
  the row of the video with the status \<open>failed\<close> and the error text of the \<open>NameError\<close>.
\<close>

theorem C2_no_commit_call_is_made:
  "\<not> is_returned (fst (index_video_task env w vid url k)) \<and>
   oplog (snd (index_video_task env w vid url k))
     = oplog w @ [StatusUpdate vid ''processing'', StatusUpdate vid ''failed''] \<and>
   commit_ops (snd (index_video_task env w vid url k)) = commit_ops w \<and>
   vector_index (snd (index_video_task env w vid url k)) = vector_index w \<and>
   temporal_files (snd (index_video_task env w vid url k)) = temporal_files w \<and>
   index_video_task file_present empty_world ''v1'' ''/data/a.mp4'' 0
     = (Retry 60,
        \<lparr>vector_index = Map.empty, temporal_files = Map.empty,
         videos = [''v1'' \<mapsto> \<lparr>video_url = [], duration = None, file_size = None,
                               status = ''failed'', error_message = Some ''NameError'',
                               temporal_features_path = None, processing_time_ms = None\<rparr>],
         oplog = [StatusUpdate ''v1'' ''processing'', StatusUpdate ''v1'' ''failed'']\<rparr>)"
proof (intro conjI)
  show "\<not> is_returned (fst (index_video_task env w vid url k))"
    by (simp add: index_video_task_eval celery_retry_outcome)
  show "oplog (snd (index_video_task env w vid url k))
          = oplog w @ [StatusUpdate vid ''processing'', StatusUpdate vid ''failed'']"
    by (simp add: index_video_task_eval update_indexing_status_frame)
  then show "commit_ops (snd (index_video_task env w vid url k)) = commit_ops w"
    by (simp add: commit_ops_def)
  show "vector_index (snd (index_video_task env w vid url k)) = vector_index w"
    by (simp add: index_video_task_eval update_indexing_status_frame)
  show "temporal_files (snd (index_video_task env w vid url k)) = temporal_files w"
    by (simp add: index_video_task_eval update_indexing_status_frame)
  show "index_video_task file_present empty_world ''v1'' ''/data/a.mp4'' 0
     = (Retry 60,
        \<lparr>vector_index = Map.empty, temporal_files = Map.empty,
         videos = [''v1'' \<mapsto> \<lparr>video_url = [], duration = None, file_size = None,
                               status = ''failed'', error_message = Some ''NameError'',
                               temporal_features_path = None, processing_time_ms = None\<rparr>],
         oplog = [StatusUpdate ''v1'' ''processing'', StatusUpdate ''v1'' ''failed'']\<rparr>)"
    by (simp add: index_video_task_eval celery_retry_outcome body_exn_def is_remote_def
        update_indexing_status_def log_op_def demo_defs Let_def)
qed

text \<open>
  Claim C1, as amended. An attempt that fails removes nothing from the vector index
  and nothing from the temporal store: every vector entry and every temporal matrix
  that was there before the attempt is there after it. When the commit of the status
  update succeeds, the video has the status \<open>failed\<close> afterwards; when it does not, the
  table of videos is as before. So a video that had been indexed keeps its vector
  entry and its temporal matrix while its status is \<open>failed\<close>. In the module as it
  is, no attempt returns, so all this holds of every attempt.
\<close>

theorem C1_failed_attempt_keeps_artifacts:
  assumes "index_video_task env w vid url k = (out, w')"
  shows "\<not> is_returned out \<and>
         vector_index w \<subseteq>\<^sub>m vector_index w' \<and>
         temporal_files w \<subseteq>\<^sub>m temporal_files w' \<and>
         (status_commit_ok env \<longrightarrow> status_of w' vid = Some ''failed'') \<and>
         (\<not> status_commit_ok env \<longrightarrow> videos w' = videos w)"
proof -
  from assms have out: "out = celery_retry k (body_exn env url) (60 * 2 ^ k)"
    and w': "w' = update_indexing_status env (update_indexing_status env w vid ''processing'' None)
                    vid ''failed'' (Some (str_exn (body_exn env url)))"
    by (simp_all add: index_video_task_eval)
  from out have "\<not> is_returned out"
    by (simp add: celery_retry_outcome)
  moreover from w' have "vector_index w' = vector_index w" "temporal_files w' = temporal_files w"
    by (simp_all add: update_indexing_status_frame)
  moreover from w' have "status_commit_ok env \<longrightarrow> status_of w' vid = Some ''failed''"
    by (simp add: update_indexing_status_failed)
  moreover from w' have "\<not> status_commit_ok env \<longrightarrow> videos w' = videos w"
    by (simp add: update_indexing_status_rolled_back)
  ultimately show ?thesis by simp
qed

theorem C1_failed_attempt_keeps_artifacts_witness:
  "status_commit_ok file_missing \<and>
   \<not> is_returned (fst (index_video_task file_missing indexed_world ''v1'' ''/data/a.mp4'' 0)) \<and>
   status_of (snd (index_video_task file_missing indexed_world ''v1'' ''/data/a.mp4'' 0)) ''v1''
     = Some ''failed'' \<and>
   vector_index indexed_world
     \<subseteq>\<^sub>m vector_index (snd (index_video_task file_missing indexed_world ''v1'' ''/data/a.mp4'' 0)) \<and>
   temporal_files indexed_world
     \<subseteq>\<^sub>m temporal_files (snd (index_video_task file_missing indexed_world ''v1'' ''/data/a.mp4'' 0)) \<and>
   dom (vector_index indexed_world) = {''v1''} \<and>
   dom (temporal_files indexed_world) = {''v1''}"
proof -
  let ?t = "index_video_task file_missing indexed_world ''v1'' ''/data/a.mp4'' 0"
  have p: "?t = (fst ?t, snd ?t)" by simp
  have ok: "status_commit_ok file_missing"
    by (simp add: demo_defs)
  have d: "dom (vector_index indexed_world) = {''v1''}"
    "dom (temporal_files indexed_world) = {''v1''}"
    by (simp_all add: indexed_world_def)
  from C1_failed_attempt_keeps_artifacts [OF p] ok d show ?thesis by blast
qed

text \<open>
  The claim as stated fails. The video \<open>v1\<close> is indexed, and indexing it again is
  requested for a local path that no longer exists: every attempt raises the
  \<open>ValueError\<close> of line 31, the task ends after its third retry, and the video then has
  the status \<open>failed\<close> while its vector entry and its temporal matrix are still in
  their stores. The same holds after one attempt for a path that exists.
\<close>

theorem C1_failed_video_keeps_vector:
  "fst (run_task [file_missing, file_missing, file_missing, file_missing]
          indexed_world ''v1'' ''/data/a.mp4'' 0) = Some (Raised ValueError) \<and>
   status_of (snd (snd (run_task [file_missing, file_missing, file_missing, file_missing]
          indexed_world ''v1'' ''/data/a.mp4'' 0))) ''v1'' = Some ''failed'' \<and>
   vector_index (snd (snd (run_task [file_missing, file_missing, file_missing, file_missing]
          indexed_world ''v1'' ''/data/a.mp4'' 0))) ''v1'' \<noteq> None \<and>
   temporal_files (snd (snd (run_task [file_missing, file_missing, file_missing, file_missing]
          indexed_world ''v1'' ''/data/a.mp4'' 0))) ''v1'' \<noteq> None \<and>
   status_of (snd (index_video_task file_present indexed_world ''v1'' ''/data/a.mp4'' 0))
     ''v1'' = Some ''failed'' \<and>
   vector_index (snd (index_video_task file_present indexed_world ''v1'' ''/data/a.mp4'' 0))
     ''v1'' \<noteq> None \<and>
   temporal_files (snd (index_video_task file_present indexed_world ''v1'' ''/data/a.mp4'' 0))
     ''v1'' \<noteq> None"
  by (simp add: index_video_task_eval celery_retry_outcome body_exn_def is_remote_def
      update_indexing_status_frame update_indexing_status_failed demo_defs)

text \<open>
  A task that is given at least four attempts ends in its fourth: the three retries
  are scheduled after 60, 120 and 240 seconds, and the fourth attempt raises.
\<close>

lemma run_task_four_attempts:
  "fst (run_task (e1 # e2 # e3 # e4 # envs) w vid url 0) = Some (Raised (body_exn e4 url)) \<and>
   fst (snd (run_task (e1 # e2 # e3 # e4 # envs) w vid url 0)) = [60, 120, 240]"
  by (simp add: index_video_task_eval celery_retry_outcome)

text \<open>
  Claim C5, which the code does not meet. The file \<open>/data/broken.mp4\<close> exists and
  cannot be decoded. No attempt reaches the encoder: each raises the \<open>NameError\<close> of
  line 35, marks the video failed and asks for a retry, so the task is run four times,
  with 60, 120 and 240 seconds between the attempts, before it ends with the video
  failed. In general an attempt with \<open>retries = k\<close> is rescheduled after \<open>60 \<times> 2^k\<close>
  seconds when \<open>k < 3\<close> and raises its exception when \<open>k = 3\<close>, whatever the exception
  is.
\<close>

theorem C5_undecodable_video_is_retried:
  "fst (index_video_task env w vid url k)
     = (if k < 3 then Retry (60 * 2 ^ k) else Raised (body_exn env url)) \<and>
   fst (index_video_task file_present empty_world ''v1'' ''/data/broken.mp4'' 0) = Retry 60 \<and>
   status_of (snd (index_video_task file_present empty_world ''v1'' ''/data/broken.mp4'' 0)) ''v1''
     = Some ''failed'' \<and>
   fst (run_task [file_present, file_present, file_present, file_present]
          empty_world ''v1'' ''/data/broken.mp4'' 0) = Some (Raised NameError) \<and>
   fst (snd (run_task [file_present, file_present, file_present, file_present]
          empty_world ''v1'' ''/data/broken.mp4'' 0)) = [60, 120, 240] \<and>
   status_of (snd (snd (run_task [file_present, file_present, file_present, file_present]
          empty_world ''v1'' ''/data/broken.mp4'' 0))) ''v1'' = Some ''failed''"
  by (simp add: index_video_task_eval celery_retry_outcome body_exn_def is_remote_def
      update_indexing_status_failed demo_defs)

end
